theory Spec2Isabelle
  imports Main
begin

section \<open>The syntax tree handed to the linter\<close>

text \<open>
  The linter of \<^verbatim>\<open>src/index.js\<close> works on the tree that \<^verbatim>\<open>@babel/parser\<close> returns.
  Only the parts of that tree the linter reads are kept: the \<^verbatim>\<open>loc\<close> of a node, the
  \<^verbatim>\<open>properties\<close> of an object literal, the \<^verbatim>\<open>key\<close>, \<^verbatim>\<open>computed\<close> flag and \<^verbatim>\<open>value\<close> of
  a property, and the \<^verbatim>\<open>type\<close> and \<^verbatim>\<open>name\<close> of a key. Every other kind of node is an
  \<open>OtherNode\<close> with its type tag and its children in visiting order.
\<close>

record position =
  pos_line :: nat
  pos_column :: nat

record source_location =
  loc_start :: "position option"

datatype node =
    Identifier string
  | StringLiteral string
  | ObjectExpression objexp
  | OtherNode string "node list"
and objexp =
    ObjExp "source_location option" "property list"
and property =
    ObjectProperty "source_location option" node bool node
  | ObjectMethod "source_location option" node bool "node list"
  | SpreadElement "source_location option" node

text \<open>\<^verbatim>\<open>node.properties\<close> and \<^verbatim>\<open>node.loc\<close> of an object literal.\<close>

fun properties :: "objexp \<Rightarrow> property list" where
  "properties (ObjExp l ps) = ps"

fun objexp_loc :: "objexp \<Rightarrow> source_location option" where
  "objexp_loc (ObjExp l ps) = l"

text \<open>\<^verbatim>\<open>prop.key\<close>: a spread element has none.\<close>

fun prop_key :: "property \<Rightarrow> node option" where
  "prop_key (ObjectProperty l k c v) = Some k"
| "prop_key (ObjectMethod l k c b) = Some k"
| "prop_key (SpreadElement l a) = None"

text \<open>\<^verbatim>\<open>prop.value\<close>: only an \<^verbatim>\<open>ObjectProperty\<close> has one.\<close>

fun prop_value :: "property \<Rightarrow> node option" where
  "prop_value (ObjectProperty l k c v) = Some v"
| "prop_value (ObjectMethod l k c b) = None"
| "prop_value (SpreadElement l a) = None"

fun prop_loc :: "property \<Rightarrow> source_location option" where
  "prop_loc (ObjectProperty l k c v) = l"
| "prop_loc (ObjectMethod l k c b) = l"
| "prop_loc (SpreadElement l a) = l"

text \<open>\<^verbatim>\<open>key.name\<close>: defined on an \<^verbatim>\<open>Identifier\<close> only (a string literal has \<^verbatim>\<open>value\<close>).\<close>

fun node_name :: "node \<Rightarrow> string option" where
  "node_name (Identifier n) = Some n"
| "node_name (StringLiteral v) = None"
| "node_name (ObjectExpression e) = None"
| "node_name (OtherNode t ns) = None"

text \<open>\<^verbatim>\<open>prop.key && prop.key.name === s\<close>, the test used by \<^verbatim>\<open>some\<close> and \<^verbatim>\<open>find\<close>.\<close>

definition key_named :: "string \<Rightarrow> property \<Rightarrow> bool" where
  "key_named s prop =
     (case prop_key prop of None \<Rightarrow> False | Some k \<Rightarrow> node_name k = Some s)"

text \<open>
  \<^verbatim>\<open>@babel/traverse\<close> with a single \<^verbatim>\<open>ObjectExpression\<close> visitor: the object literals of
  a tree in the order the visitor is entered, a literal before the literals nested in it,
  the key of a property before its value.
\<close>

primrec object_expressions :: "node \<Rightarrow> objexp list"
    and object_expressions_objexp :: "objexp \<Rightarrow> objexp list"
    and object_expressions_prop :: "property \<Rightarrow> objexp list" where
  "object_expressions (Identifier n) = []"
| "object_expressions (StringLiteral v) = []"
| "object_expressions (ObjectExpression e) = e # object_expressions_objexp e"
| "object_expressions (OtherNode t ns) = concat (map object_expressions ns)"
| "object_expressions_objexp (ObjExp l ps) = concat (map object_expressions_prop ps)"
| "object_expressions_prop (ObjectProperty l k c v) =
     object_expressions k @ object_expressions v"
| "object_expressions_prop (ObjectMethod l k c b) =
     object_expressions k @ concat (map object_expressions b)"
| "object_expressions_prop (SpreadElement l a) = object_expressions a"

text \<open>
  The traversal can throw on a tree that parsed: its scope building rejects a duplicate
  declaration, for one. The first argument says what this traversal does: \<open>None\<close> when it
  completes, \<open>Some (k, msg)\<close> when it throws with the message \<open>msg\<close> after the visitor has
  run on the first \<open>k\<close> object literals. What the visitor did before the exception stays
  done; the second component of the result is the message of the exception, if any.
\<close>

definition traverse ::
  "(nat \<times> string) option \<Rightarrow> node \<Rightarrow> (objexp \<Rightarrow> 's \<Rightarrow> 's) \<Rightarrow> 's \<Rightarrow> 's \<times> string option" where
  "traverse thrown ast visitor s =
     (case thrown of
        None \<Rightarrow> (fold visitor (object_expressions ast) s, None)
      | Some (k, msg) \<Rightarrow> (fold visitor (take k (object_expressions ast)) s, Some msg))"

section \<open>Diagnostics and the linter object\<close>

datatype severity = Error | Warning

record diagnostic =
  diag_file :: string
  line :: nat
  column :: nat
  message :: string
  severity :: severity
  suggestion :: "string option"

record options =
  opt_files :: "string list option"
  opt_ignore :: "string list option"

record linter =
  files :: "string list"
  ignore :: "string list"
  errors :: "diagnostic list"
  warnings :: "diagnostic list"

text \<open>\<^verbatim>\<open>constructor(options = {})\<close>: the defaults, and two empty collections.\<close>

definition constructor :: "options \<Rightarrow> linter" where
  "constructor opts =
     \<lparr> files = (case opt_files opts of
                  Some fs \<Rightarrow> fs
                | None \<Rightarrow> [''**/*.js'', ''**/*.jsx'', ''**/*.ts'', ''**/*.tsx'']),
       ignore = (case opt_ignore opts of
                  Some ig \<Rightarrow> ig
                | None \<Rightarrow> [''node_modules/**'', ''dist/**'']),
       errors = [],
       warnings = [] \<rparr>"

text \<open>\<^verbatim>\<open>this.errors.push(d)\<close> and \<^verbatim>\<open>this.warnings.push(d)\<close>.\<close>

definition push_error :: "diagnostic \<Rightarrow> linter \<Rightarrow> linter" where
  "push_error d s = s\<lparr>errors := errors s @ [d]\<rparr>"

definition push_warning :: "diagnostic \<Rightarrow> linter \<Rightarrow> linter" where
  "push_warning d s = s\<lparr>warnings := warnings s @ [d]\<rparr>"

section \<open>Classification tables\<close>

definition getStyleProperties :: "string list" where
  "getStyleProperties =
     [''width'', ''height'', ''margin'', ''padding'', ''border'', ''background'', ''color'',
      ''fontSize'', ''fontFamily'', ''fontWeight'', ''textAlign'', ''display'', ''position'',
      ''top'', ''left'', ''right'', ''bottom'', ''zIndex'', ''opacity'', ''visibility'',
      ''overflow'', ''cursor'', ''transition'', ''transform'', ''boxSizing'', ''flex'',
      ''flexDirection'', ''justifyContent'', ''alignItems'', ''gap'', ''grid'',
      ''gridTemplateColumns'', ''gridTemplateRows'', ''aspectRatio'', ''backdropFilter'',
      ''borderRadius'', ''boxShadow'', ''textDecoration'', ''lineHeight'', ''letterSpacing'',
      ''whiteSpace'', ''wordWrap'', ''textOverflow'', ''verticalAlign'', ''float'',
      ''clear'', ''minWidth'', ''maxWidth'', ''minHeight'', ''maxHeight'', ''flexBasis'',
      ''flexGrow'', ''flexShrink'', ''order'', ''alignSelf'', ''justifySelf'']"

definition getHTMLAttributes :: "string list" where
  "getHTMLAttributes =
     [''id'', ''class'', ''className'', ''data-*'', ''aria-*'', ''role'', ''tabindex'',
      ''disabled'', ''readonly'', ''required'', ''checked'', ''selected'', ''value'',
      ''placeholder'', ''title'', ''alt'', ''src'', ''href'', ''target'', ''rel'',
      ''type'', ''name'', ''form'', ''for'', ''maxlength'', ''minlength'', ''pattern'',
      ''autocomplete'', ''autofocus'', ''multiple'', ''size'', ''rows'', ''cols'']"

definition getEventHandlers :: "string list" where
  "getEventHandlers =
     [''onClick'', ''onMouseEnter'', ''onMouseLeave'', ''onMouseOver'', ''onMouseOut'',
      ''onMouseDown'', ''onMouseUp'', ''onKeyDown'', ''onKeyUp'', ''onKeyPress'',
      ''onFocus'', ''onBlur'', ''onChange'', ''onInput'', ''onSubmit'', ''onLoad'',
      ''onError'', ''onResize'', ''onScroll'', ''onTouchStart'', ''onTouchEnd'',
      ''onTouchMove'', ''onTouchCancel'']"

text \<open>
  \<^verbatim>\<open>set.has(x)\<close> on a \<^verbatim>\<open>Set\<close> built from a list, \<^verbatim>\<open>array.includes(x)\<close> and
  \<^verbatim>\<open>s.startsWith(p)\<close>.
\<close>

definition has :: "string list \<Rightarrow> string \<Rightarrow> bool" where
  "has xs x = (x \<in> set xs)"

definition array_includes :: "string list \<Rightarrow> string \<Rightarrow> bool" where
  "array_includes xs x = (x \<in> set xs)"

definition startsWith :: "string \<Rightarrow> string \<Rightarrow> bool" where
  "startsWith s p = (take (length p) s = p)"

section \<open>Locations and messages\<close>

text \<open>\<^verbatim>\<open>l?.start?.line\<close> and \<^verbatim>\<open>l?.start?.column\<close>: \<open>None\<close> is \<^verbatim>\<open>undefined\<close>.\<close>

definition start_line :: "source_location option \<Rightarrow> nat option" where
  "start_line l = (case l of None \<Rightarrow> None
     | Some sl \<Rightarrow> (case loc_start sl of None \<Rightarrow> None | Some p \<Rightarrow> Some (pos_line p)))"

definition start_column :: "source_location option \<Rightarrow> nat option" where
  "start_column l = (case l of None \<Rightarrow> None
     | Some sl \<Rightarrow> (case loc_start sl of None \<Rightarrow> None | Some p \<Rightarrow> Some (pos_column p)))"

text \<open>
  \<^verbatim>\<open>a || b\<close> where \<^verbatim>\<open>a\<close> is a number or \<^verbatim>\<open>undefined\<close>: the number \<^verbatim>\<open>0\<close> is falsy, as
  \<^verbatim>\<open>undefined\<close> is.
\<close>

definition js_or :: "nat option \<Rightarrow> nat \<Rightarrow> nat" where
  "js_or a b = (case a of None \<Rightarrow> b | Some n \<Rightarrow> if n = 0 then b else n)"

text \<open>\<^verbatim>\<open>prop.loc?.start?.line || location?.start?.line || 1\<close>, and the same for the column.\<close>

definition resolve_line :: "property \<Rightarrow> source_location option \<Rightarrow> nat" where
  "resolve_line prop location =
     js_or (start_line (prop_loc prop)) (js_or (start_line location) 1)"

definition resolve_column :: "property \<Rightarrow> source_location option \<Rightarrow> nat" where
  "resolve_column prop location =
     js_or (start_column (prop_loc prop)) (js_or (start_column location) 1)"

text \<open>A name between apostrophes, as the template literals of the messages write it.\<close>

definition quoted :: "string \<Rightarrow> string" where
  "quoted n = CHR 0x27 # n @ [CHR 0x27]"

definition style_in_props :: "string \<Rightarrow> property \<Rightarrow> source_location option \<Rightarrow> string \<Rightarrow> diagnostic" where
  "style_in_props filePath prop location propName =
     \<lparr> diag_file = filePath,
       line = resolve_line prop location,
       column = resolve_column prop location,
       message = ''Style property '' @ quoted propName @ '' should be in '' @
                 quoted ''style'' @ '' object, not '' @ quoted ''props'',
       severity = Warning,
       suggestion = Some (''Move '' @ quoted propName @ '' to the '' @
                          quoted ''style'' @ '' object'') \<rparr>"

definition event_in_props :: "string \<Rightarrow> property \<Rightarrow> source_location option \<Rightarrow> string \<Rightarrow> diagnostic" where
  "event_in_props filePath prop location propName =
     \<lparr> diag_file = filePath,
       line = resolve_line prop location,
       column = resolve_column prop location,
       message = ''Event handler '' @ quoted propName @ '' should be in '' @
                 quoted ''on'' @ '' object, not '' @ quoted ''props'',
       severity = Warning,
       suggestion = Some (''Move '' @ quoted propName @ '' to the '' @
                          quoted ''on'' @ '' object'') \<rparr>"

definition attr_in_style :: "string \<Rightarrow> property \<Rightarrow> source_location option \<Rightarrow> string \<Rightarrow> diagnostic" where
  "attr_in_style filePath prop location propName =
     \<lparr> diag_file = filePath,
       line = resolve_line prop location,
       column = resolve_column prop location,
       message = ''HTML attribute '' @ quoted propName @ '' should be in '' @
                 quoted ''props'' @ '' object, not '' @ quoted ''style'',
       severity = Warning,
       suggestion = Some (''Move '' @ quoted propName @ '' to the '' @
                          quoted ''props'' @ '' object'') \<rparr>"

definition not_handler_in_on :: "string \<Rightarrow> property \<Rightarrow> source_location option \<Rightarrow> string \<Rightarrow> diagnostic" where
  "not_handler_in_on filePath prop location propName =
     \<lparr> diag_file = filePath,
       line = resolve_line prop location,
       column = resolve_column prop location,
       message = quoted propName @
                 '' doesn'' @ [CHR 0x27] @ ''t look like an event handler and should probably be in '' @
                 quoted ''props'',
       severity = Warning,
       suggestion = Some (''Consider moving '' @ quoted propName @ '' to the '' @
                          quoted ''props'' @ '' object'') \<rparr>"

definition parse_error :: "string \<Rightarrow> string \<Rightarrow> diagnostic" where
  "parse_error filePath msg =
     \<lparr> diag_file = filePath, line = 1, column = 1,
       message = ''Parse error: '' @ msg,
       severity = Error,
       suggestion = None \<rparr>"

section \<open>The three sub-object checks\<close>

text \<open>
  The body of the \<^verbatim>\<open>forEach\<close> callback of \<^verbatim>\<open>validatePropsObject\<close>. The two branches on
  \<^verbatim>\<open>data-\<close> and \<^verbatim>\<open>aria-\<close> are empty in the source.
\<close>

definition validatePropsObject_each ::
  "string \<Rightarrow> source_location option \<Rightarrow> string list \<Rightarrow> string list \<Rightarrow> string list \<Rightarrow>
   property \<Rightarrow> linter \<Rightarrow> linter" where
  "validatePropsObject_each filePath location styleProps htmlAttrs eventHandlers prop s =
     (case prop_key prop of
        Some (Identifier propName) \<Rightarrow>
          (let s1 = (if has styleProps propName
                     then push_warning (style_in_props filePath prop location propName) s
                     else s);
               s2 = (if has eventHandlers propName
                     then push_warning (event_in_props filePath prop location propName) s1
                     else s1)
           in if startsWith propName ''data-'' then s2
              else if startsWith propName ''aria-'' then s2
              else s2)
      | _ \<Rightarrow> s)"

definition validatePropsObject ::
  "objexp \<Rightarrow> string \<Rightarrow> source_location option \<Rightarrow> string list \<Rightarrow> string list \<Rightarrow> string list \<Rightarrow>
   linter \<Rightarrow> linter" where
  "validatePropsObject propsNode filePath location styleProps htmlAttrs eventHandlers s =
     fold (validatePropsObject_each filePath location styleProps htmlAttrs eventHandlers)
          (properties propsNode) s"

definition validateStyleObject_each ::
  "string \<Rightarrow> source_location option \<Rightarrow> string list \<Rightarrow> property \<Rightarrow> linter \<Rightarrow> linter" where
  "validateStyleObject_each filePath location htmlAttrs prop s =
     (case prop_key prop of
        Some (Identifier propName) \<Rightarrow>
          (if has htmlAttrs propName \<or> startsWith propName ''data-''
                \<or> startsWith propName ''aria-''
           then push_warning (attr_in_style filePath prop location propName) s
           else s)
      | _ \<Rightarrow> s)"

definition validateStyleObject ::
  "objexp \<Rightarrow> string \<Rightarrow> source_location option \<Rightarrow> string list \<Rightarrow> linter \<Rightarrow> linter" where
  "validateStyleObject styleNode filePath location htmlAttrs s =
     fold (validateStyleObject_each filePath location htmlAttrs) (properties styleNode) s"

definition validateOnObject_each ::
  "string \<Rightarrow> source_location option \<Rightarrow> property \<Rightarrow> linter \<Rightarrow> linter" where
  "validateOnObject_each filePath location prop s =
     (case prop_key prop of
        Some (Identifier propName) \<Rightarrow>
          (if \<not> startsWith propName ''on''
                \<and> \<not> array_includes [''mouseenter'', ''mouseleave'', ''click'', ''keydown'', ''keyup'']
                                  propName
           then push_warning (not_handler_in_on filePath prop location propName) s
           else s)
      | _ \<Rightarrow> s)"

definition validateOnObject ::
  "objexp \<Rightarrow> string \<Rightarrow> source_location option \<Rightarrow> linter \<Rightarrow> linter" where
  "validateOnObject onNode filePath location s =
     fold (validateOnObject_each filePath location) (properties onNode) s"

section \<open>Component detection and validation\<close>

definition isDOMQLComponent :: "objexp \<Rightarrow> bool" where
  "isDOMQLComponent node =
     (let hasExtend = list_ex (key_named ''extend'') (properties node);
          hasProps = list_ex (key_named ''props'') (properties node);
          hasStyle = list_ex (key_named ''style'') (properties node);
          hasOn = list_ex (key_named ''on'') (properties node)
      in hasExtend \<or> hasProps \<or> hasStyle \<or> hasOn)"

text \<open>
  \<^verbatim>\<open>n && n.value && n.value.type === 'ObjectExpression'\<close> for the result \<^verbatim>\<open>n\<close> of
  \<^verbatim>\<open>find\<close>: the object literal that is the value of the property found, if there is one.
\<close>

definition object_value :: "property option \<Rightarrow> objexp option" where
  "object_value found =
     (case found of
        None \<Rightarrow> None
      | Some p \<Rightarrow> (case prop_value p of
                     Some (ObjectExpression e) \<Rightarrow> Some e
                   | _ \<Rightarrow> None))"

definition validateComponentStructure ::
  "objexp \<Rightarrow> string \<Rightarrow> source_location option \<Rightarrow> linter \<Rightarrow> linter" where
  "validateComponentStructure node filePath location s =
     (let styleProps = getStyleProperties;
          htmlAttrs = getHTMLAttributes;
          eventHandlers = getEventHandlers;
          propsNode = List.find (key_named ''props'') (properties node);
          s1 = (case object_value propsNode of
                  Some v \<Rightarrow> validatePropsObject v filePath location styleProps htmlAttrs
                               eventHandlers s
                | None \<Rightarrow> s);
          styleNode = List.find (key_named ''style'') (properties node);
          s2 = (case object_value styleNode of
                  Some v \<Rightarrow> validateStyleObject v filePath location htmlAttrs s1
                | None \<Rightarrow> s1);
          onNode = List.find (key_named ''on'') (properties node);
          s3 = (case object_value onNode of
                  Some v \<Rightarrow> validateOnObject v filePath location s2
                | None \<Rightarrow> s2)
      in s3)"

definition checkObjectExpression :: "objexp \<Rightarrow> string \<Rightarrow> linter \<Rightarrow> linter" where
  "checkObjectExpression node filePath s =
     (let location = objexp_loc node
      in if isDOMQLComponent node
         then validateComponentStructure node filePath location s
         else s)"

section \<open>Files and the run\<close>

text \<open>
  The collaborators of the linter are parameters: \<^verbatim>\<open>glob\<close> resolves the patterns to a
  list of paths, \<^verbatim>\<open>fs.readFileSync\<close> and \<^verbatim>\<open>parse\<close> return their result or throw, and then
  \<open>Inl\<close> carries the \<^verbatim>\<open>message\<close> of the exception; \<open>traverse_throws\<close> says for each tree
  whether \<^verbatim>\<open>traverse\<close> throws on it, after how many object literals and with which
  message. The \<^verbatim>\<open>try\<close> block of \<^verbatim>\<open>lintFile\<close> holds the three calls, so the \<^verbatim>\<open>catch\<close>
  branch is reached from each of them. The visitor itself never throws: every field it
  reads is guarded (\<^verbatim>\<open>prop.key && ...\<close>, \<^verbatim>\<open>n && n.value && ...\<close>, \<^verbatim>\<open>?.\<close>).
\<close>

record env =
  glob :: "string list \<Rightarrow> string list \<Rightarrow> string list"
  readFileSync :: "string \<Rightarrow> string + string"
  parse :: "string \<Rightarrow> string + node"
  traverse_throws :: "node \<Rightarrow> (nat \<times> string) option"

definition lintFile :: "env \<Rightarrow> string \<Rightarrow> linter \<Rightarrow> linter" where
  "lintFile e filePath s =
     (case readFileSync e filePath of
        Inl msg \<Rightarrow> push_error (parse_error filePath msg) s
      | Inr content \<Rightarrow>
          (case parse e content of
             Inl msg \<Rightarrow> push_error (parse_error filePath msg) s
           | Inr ast \<Rightarrow>
               (case traverse (traverse_throws e ast) ast
                       (\<lambda>path. checkObjectExpression path filePath) s of
                  (s', None) \<Rightarrow> s'
                | (s', Some msg) \<Rightarrow> push_error (parse_error filePath msg) s')))"

text \<open>
  \<^verbatim>\<open>lint()\<close>: the files in the order \<^verbatim>\<open>glob\<close> gives them; the result is the success flag
  together with the linter after the run. \<^verbatim>\<open>reportResults\<close> only prints.
\<close>

definition lint :: "env \<Rightarrow> linter \<Rightarrow> bool \<times> linter" where
  "lint e s =
     (let fs = glob e (files s) (ignore s);
          s' = fold (lintFile e) fs s
      in (length (errors s') = 0, s'))"

section \<open>What a run appends, written as lists\<close>

text \<open>
  The diagnostics each step of the linter appends, as functions of the input alone. The
  lemmas of the next section show that the state-passing code above appends exactly these
  lists.
\<close>

definition props_diags ::
  "string \<Rightarrow> source_location option \<Rightarrow> string list \<Rightarrow> string list \<Rightarrow> property \<Rightarrow> diagnostic list" where
  "props_diags filePath location styleProps eventHandlers prop =
     (case prop_key prop of
        Some (Identifier propName) \<Rightarrow>
          (if has styleProps propName
           then [style_in_props filePath prop location propName] else []) @
          (if has eventHandlers propName
           then [event_in_props filePath prop location propName] else [])
      | _ \<Rightarrow> [])"

definition style_diags ::
  "string \<Rightarrow> source_location option \<Rightarrow> string list \<Rightarrow> property \<Rightarrow> diagnostic list" where
  "style_diags filePath location htmlAttrs prop =
     (case prop_key prop of
        Some (Identifier propName) \<Rightarrow>
          (if has htmlAttrs propName \<or> startsWith propName ''data-''
                \<or> startsWith propName ''aria-''
           then [attr_in_style filePath prop location propName] else [])
      | _ \<Rightarrow> [])"

definition on_diags ::
  "string \<Rightarrow> source_location option \<Rightarrow> property \<Rightarrow> diagnostic list" where
  "on_diags filePath location prop =
     (case prop_key prop of
        Some (Identifier propName) \<Rightarrow>
          (if \<not> startsWith propName ''on''
                \<and> \<not> array_includes [''mouseenter'', ''mouseleave'', ''click'', ''keydown'', ''keyup'']
                                  propName
           then [not_handler_in_on filePath prop location propName] else [])
      | _ \<Rightarrow> [])"

definition sub_object :: "string \<Rightarrow> objexp \<Rightarrow> property list" where
  "sub_object k node =
     (case object_value (List.find (key_named k) (properties node)) of
        Some v \<Rightarrow> properties v
      | None \<Rightarrow> [])"

definition component_diags :: "string \<Rightarrow> source_location option \<Rightarrow> objexp \<Rightarrow> diagnostic list" where
  "component_diags filePath location node =
     concat (map (props_diags filePath location getStyleProperties getEventHandlers)
                 (sub_object ''props'' node)) @
     concat (map (style_diags filePath location getHTMLAttributes)
                 (sub_object ''style'' node)) @
     concat (map (on_diags filePath location) (sub_object ''on'' node))"

definition load :: "env \<Rightarrow> string \<Rightarrow> string + node" where
  "load e filePath =
     (case readFileSync e filePath of
        Inl msg \<Rightarrow> Inl msg
      | Inr content \<Rightarrow> parse e content)"

definition visited :: "env \<Rightarrow> node \<Rightarrow> objexp list" where
  "visited e ast =
     (case traverse_throws e ast of
        None \<Rightarrow> object_expressions ast
      | Some (k, msg) \<Rightarrow> take k (object_expressions ast))"

definition traverse_errors :: "env \<Rightarrow> string \<Rightarrow> node \<Rightarrow> diagnostic list" where
  "traverse_errors e filePath ast =
     (case traverse_throws e ast of
        None \<Rightarrow> []
      | Some (k, msg) \<Rightarrow> [parse_error filePath msg])"

definition file_errors :: "env \<Rightarrow> string \<Rightarrow> diagnostic list" where
  "file_errors e filePath =
     (case load e filePath of
        Inl msg \<Rightarrow> [parse_error filePath msg]
      | Inr ast \<Rightarrow> traverse_errors e filePath ast)"

definition file_warnings :: "env \<Rightarrow> string \<Rightarrow> diagnostic list" where
  "file_warnings e filePath =
     (case load e filePath of
        Inl msg \<Rightarrow> []
      | Inr ast \<Rightarrow>
          concat (map (\<lambda>node. component_diags filePath (objexp_loc node) node)
                      (filter isDOMQLComponent (visited e ast))))"

definition add_warnings :: "diagnostic list \<Rightarrow> linter \<Rightarrow> linter" where
  "add_warnings ds s = s\<lparr>warnings := warnings s @ ds\<rparr>"

definition add_errors :: "diagnostic list \<Rightarrow> linter \<Rightarrow> linter" where
  "add_errors ds s = s\<lparr>errors := errors s @ ds\<rparr>"

section \<open>The detector as the specification words it\<close>

text \<open>
  The specification's sentence on the component detector, to be compared with
  \<open>isDOMQLComponent\<close>: the direct keys that count are those of non-computed properties
  whose key is an identifier or a string literal; computed keys and spread elements
  contribute nothing; the literal is a component iff one of these keys is \<^verbatim>\<open>extend\<close>,
  \<^verbatim>\<open>props\<close>, \<^verbatim>\<open>style\<close> or \<^verbatim>\<open>on\<close>.
\<close>

definition spec_static_key :: "property \<Rightarrow> string option" where
  "spec_static_key prop =
     (case prop of
        ObjectProperty l k c v \<Rightarrow>
          (if c then None
           else (case k of Identifier n \<Rightarrow> Some n | StringLiteral n \<Rightarrow> Some n | _ \<Rightarrow> None))
      | ObjectMethod l k c b \<Rightarrow>
          (if c then None
           else (case k of Identifier n \<Rightarrow> Some n | StringLiteral n \<Rightarrow> Some n | _ \<Rightarrow> None))
      | SpreadElement l a \<Rightarrow> None)"

definition spec_isComponent :: "objexp \<Rightarrow> bool" where
  "spec_isComponent node =
     list_ex (\<lambda>prop. case spec_static_key prop of
                       None \<Rightarrow> False
                     | Some n \<Rightarrow> array_includes [''extend'', ''props'', ''style'', ''on''] n)
             (properties node)"

section \<open>The wording of the claims\<close>

text \<open>
  The messages and suggestions as the claims word them, character by character, with the
  name filled in; and the fields of a sub-object as the claims word it: the fields of the
  object literals that are the values of the direct properties with the static name
  \<open>k\<close>.
\<close>

definition claimed_style_message :: "string \<Rightarrow> string" where
  "claimed_style_message name =
     ''Style property '' @ CHR 0x27 # name @
     ''' should be in 'style' object, not 'props'' @ [CHR 0x27]"

definition claimed_style_suggestion :: "string \<Rightarrow> string" where
  "claimed_style_suggestion name =
     ''Move '' @ CHR 0x27 # name @ ''' to the 'style' object''"

definition claimed_attribute_message :: "string \<Rightarrow> string" where
  "claimed_attribute_message name =
     ''HTML attribute '' @ CHR 0x27 # name @
     ''' should be in 'props' object, not 'style'' @ [CHR 0x27]"

definition claimed_on_message :: "string \<Rightarrow> string" where
  "claimed_on_message name =
     CHR 0x27 # name @
     ''' doesn't look like an event handler and should probably be in 'props'' @ [CHR 0x27]"

definition claimed_on_suggestion :: "string \<Rightarrow> string" where
  "claimed_on_suggestion name =
     ''Consider moving '' @ CHR 0x27 # name @ ''' to the 'props' object''"

definition spec_sub_object_fields :: "string \<Rightarrow> objexp \<Rightarrow> property list" where
  "spec_sub_object_fields k node =
     concat (map (\<lambda>p. case prop_value p of
                         Some (ObjectExpression v) \<Rightarrow>
                           (if spec_static_key p = Some k then properties v else [])
                       | _ \<Rightarrow> [])
                 (properties node))"

section \<open>Example inputs\<close>

text \<open>
  Concrete trees and collaborators, used to run the linter on: the end-to-end example of
  the specification, a component with a string-literal key in \<^verbatim>\<open>style\<close>, a component
  with a property in column 0, a run over three files of which the second does not parse.
\<close>

definition at :: "nat \<Rightarrow> nat \<Rightarrow> source_location option" where
  "at l c = Some \<lparr>loc_start = Some \<lparr>pos_line = l, pos_column = c\<rparr>\<rparr>"

definition module_of :: "node \<Rightarrow> node" where
  "module_of init =
     OtherNode ''File'' [OtherNode ''Program'' [OtherNode ''ExportNamedDeclaration''
       [OtherNode ''VariableDeclaration''
          [OtherNode ''VariableDeclarator'' [Identifier ''C'', init]]]]]"

definition example_component :: objexp where
  "example_component =
     ObjExp (at 1 17)
       [ObjectProperty (at 2 2) (Identifier ''props'') False
          (ObjectExpression (ObjExp (at 2 9)
             [ObjectProperty (at 2 11) (Identifier ''width'') False (StringLiteral ''100px''),
              ObjectProperty (at 2 27) (Identifier ''onClick'') False (Identifier ''fn''),
              ObjectProperty (at 2 40) (Identifier ''id'') False (StringLiteral ''x'')])),
        ObjectProperty (at 3 2) (Identifier ''style'') False
          (ObjectExpression (ObjExp (at 3 9)
             [ObjectProperty (at 3 11) (Identifier ''id'') False (StringLiteral ''y'')])),
        ObjectProperty (at 4 2) (Identifier ''on'') False
          (ObjectExpression (ObjExp (at 4 6)
             [ObjectProperty (at 4 8) (Identifier ''id'') False (StringLiteral ''z''),
              ObjectProperty (at 4 17) (Identifier ''click'') False (Identifier ''fn'')]))]"

definition example_env :: env where
  "example_env =
     \<lparr> glob = (\<lambda>patterns ignored. [''a.js'', ''b.js'', ''c.js'']),
       readFileSync = (\<lambda>p. if p = ''a.js'' \<or> p = ''b.js'' \<or> p = ''c.js''
                            then Inr (''source of '' @ p)
                            else Inl ''ENOENT: no such file or directory''),
       parse = (\<lambda>content. if content = ''source of b.js''
                           then Inl ''Unexpected token (1:5)''
                           else Inr (module_of (ObjectExpression example_component))),
       traverse_throws = (\<lambda>ast. None) \<rparr>"

definition string_key_component :: objexp where
  "string_key_component =
     ObjExp (at 1 17)
       [ObjectProperty (at 1 19) (Identifier ''style'') False
          (ObjectExpression (ObjExp (at 1 26)
             [ObjectProperty (at 1 28) (StringLiteral ''data-wrong'') False
                (StringLiteral ''value'')]))]"

definition column_zero_component :: objexp where
  "column_zero_component =
     ObjExp (at 1 17)
       [ObjectProperty (at 2 2) (Identifier ''props'') False
          (ObjectExpression (ObjExp (at 2 9)
             [ObjectProperty (at 3 0) (Identifier ''width'') False
                (StringLiteral ''100px'')]))]"

definition one_file_env :: "objexp \<Rightarrow> env" where
  "one_file_env component =
     \<lparr> glob = (\<lambda>patterns ignored. [''a.js'']),
       readFileSync = (\<lambda>p. if p = ''a.js'' then Inr ''source of a.js''
                            else Inl ''ENOENT: no such file or directory''),
       parse = (\<lambda>content. Inr (module_of (ObjectExpression component))),
       traverse_throws = (\<lambda>ast. None) \<rparr>"

definition default_options :: options where
  "default_options = \<lparr>opt_files = None, opt_ignore = None\<rparr>"

definition example_warnings :: "string \<Rightarrow> diagnostic list" where
  "example_warnings f =
     [\<lparr> diag_file = f, line = 2, column = 11,
        message = ''Style property 'width' should be in 'style' object, not 'props'' @
                  [CHR 0x27],
        severity = Warning,
        suggestion = Some ''Move 'width' to the 'style' object'' \<rparr>,
      \<lparr> diag_file = f, line = 2, column = 27,
        message = ''Event handler 'onClick' should be in 'on' object, not 'props'' @
                  [CHR 0x27],
        severity = Warning,
        suggestion = Some ''Move 'onClick' to the 'on' object'' \<rparr>,
      \<lparr> diag_file = f, line = 3, column = 11,
        message = ''HTML attribute 'id' should be in 'props' object, not 'style'' @
                  [CHR 0x27],
        severity = Warning,
        suggestion = Some ''Move 'id' to the 'props' object'' \<rparr>,
      \<lparr> diag_file = f, line = 4, column = 8,
        message = CHR 0x27 #
                  ''id' doesn't look like an event handler and should probably be in 'props'' @
                  [CHR 0x27],
        severity = Warning,
        suggestion = Some ''Consider moving 'id' to the 'props' object'' \<rparr>]"

text \<open>
  A source with nested components:
  \<^verbatim>\<open>export const C = {\<close>
  \<^verbatim>\<open>  props: { width: '1px', child: { style: { id: 'a' } } },\<close>
  \<^verbatim>\<open>  style: { title: 't' },\<close>
  \<^verbatim>\<open>  inner: { on: { id: 'z' } }\<close>
  \<^verbatim>\<open>};\<close>
\<close>

definition nested_component :: objexp where
  "nested_component =
     ObjExp (at 1 17)
       [ObjectProperty (at 2 2) (Identifier ''props'') False
          (ObjectExpression (ObjExp (at 2 9)
             [ObjectProperty (at 2 11) (Identifier ''width'') False (StringLiteral ''1px''),
              ObjectProperty (at 2 25) (Identifier ''child'') False
                (ObjectExpression (ObjExp (at 2 32)
                   [ObjectProperty (at 2 34) (Identifier ''style'') False
                      (ObjectExpression (ObjExp (at 2 41)
                         [ObjectProperty (at 2 43) (Identifier ''id'') False
                            (StringLiteral ''a'')]))]))])),
        ObjectProperty (at 3 2) (Identifier ''style'') False
          (ObjectExpression (ObjExp (at 3 9)
             [ObjectProperty (at 3 11) (Identifier ''title'') False (StringLiteral ''t'')])),
        ObjectProperty (at 4 2) (Identifier ''inner'') False
          (ObjectExpression (ObjExp (at 4 9)
             [ObjectProperty (at 4 11) (Identifier ''on'') False
                (ObjectExpression (ObjExp (at 4 15)
                   [ObjectProperty (at 4 17) (Identifier ''id'') False
                      (StringLiteral ''z'')]))]))]"

text \<open>
  The same file, first with a traversal that completes, then with one that throws after
  the visitor has run on two object literals.
\<close>

definition throwing_env :: "objexp \<Rightarrow> env" where
  "throwing_env component =
     \<lparr> glob = (\<lambda>patterns ignored. [''a.js'']),
       readFileSync = (\<lambda>p. if p = ''a.js'' then Inr ''source of a.js''
                            else Inl ''ENOENT: no such file or directory''),
       parse = (\<lambda>content. Inr (module_of (ObjectExpression component))),
       traverse_throws = (\<lambda>ast. Some (2, ''Duplicate declaration'')) \<rparr>"

text \<open>
  Inputs on which claims as worded fail: a style name under a string-literal key in
  \<^verbatim>\<open>props\<close>; an object literal under the second of two \<^verbatim>\<open>props\<close> keys, the first holding
  no object literal; a name that is no handler under a string-literal key in \<^verbatim>\<open>on\<close>; an
  object literal under the second of two \<^verbatim>\<open>on\<close> keys.
\<close>

definition string_key_in_props :: objexp where
  "string_key_in_props =
     ObjExp (at 1 17)
       [ObjectProperty (at 1 19) (Identifier ''props'') False
          (ObjectExpression (ObjExp (at 1 26)
             [ObjectProperty (at 1 28) (StringLiteral ''width'') False
                (StringLiteral ''100px'')]))]"

definition second_props_key :: objexp where
  "second_props_key =
     ObjExp (at 1 17)
       [ObjectProperty (at 1 19) (Identifier ''props'') False (Identifier ''base''),
        ObjectProperty (at 1 32) (Identifier ''props'') False
          (ObjectExpression (ObjExp (at 1 39)
             [ObjectProperty (at 1 41) (Identifier ''width'') False
                (StringLiteral ''100px'')]))]"

definition string_key_in_on :: objexp where
  "string_key_in_on =
     ObjExp (at 1 17)
       [ObjectProperty (at 1 19) (Identifier ''on'') False
          (ObjectExpression (ObjExp (at 1 23)
             [ObjectProperty (at 1 25) (StringLiteral ''custom-event'') False
                (Identifier ''fn'')]))]"

definition second_on_key :: objexp where
  "second_on_key =
     ObjExp (at 1 17)
       [ObjectProperty (at 1 19) (Identifier ''on'') False (Identifier ''base''),
        ObjectProperty (at 1 29) (Identifier ''on'') False
          (ObjectExpression (ObjExp (at 1 33)
             [ObjectProperty (at 1 35) (Identifier ''id'') False
                (StringLiteral ''z'')]))]"

section \<open>The code appends these lists\<close>

lemma add_warnings_Nil [simp]: "add_warnings [] s = s"
  by (simp add: add_warnings_def)

lemma add_warnings_add_warnings [simp]:
  "add_warnings ys (add_warnings xs s) = add_warnings (xs @ ys) s"
  by (simp add: add_warnings_def)

lemma add_errors_Nil [simp]: "add_errors [] s = s"
  by (simp add: add_errors_def)

lemma add_errors_add_errors [simp]:
  "add_errors ys (add_errors xs s) = add_errors (xs @ ys) s"
  by (simp add: add_errors_def)

lemma add_errors_add_warnings:
  "add_warnings ws (add_errors es s) = add_errors es (add_warnings ws s)"
  by (simp add: add_warnings_def add_errors_def)

lemma fold_add_warnings:
  assumes "\<And>x t. f x t = add_warnings (g x) t"
  shows "fold f xs s = add_warnings (concat (map g xs)) s"
  by (induction xs arbitrary: s) (simp_all add: assms)

lemma validatePropsObject_each_eq:
  "validatePropsObject_each filePath location styleProps htmlAttrs eventHandlers prop s =
     add_warnings (props_diags filePath location styleProps eventHandlers prop) s"
  by (simp add: validatePropsObject_each_def props_diags_def push_warning_def add_warnings_def
           Let_def split: option.splits node.splits)

lemma validateStyleObject_each_eq:
  "validateStyleObject_each filePath location htmlAttrs prop s =
     add_warnings (style_diags filePath location htmlAttrs prop) s"
  by (simp add: validateStyleObject_each_def style_diags_def push_warning_def add_warnings_def
           split: option.splits node.splits)

lemma validateOnObject_each_eq:
  "validateOnObject_each filePath location prop s =
     add_warnings (on_diags filePath location prop) s"
  by (simp add: validateOnObject_each_def on_diags_def push_warning_def add_warnings_def
           split: option.splits node.splits)

lemma validatePropsObject_eq:
  "validatePropsObject v filePath location styleProps htmlAttrs eventHandlers s =
     add_warnings (concat (map (props_diags filePath location styleProps eventHandlers)
                               (properties v))) s"
  unfolding validatePropsObject_def
  by (rule fold_add_warnings) (rule validatePropsObject_each_eq)

lemma validateStyleObject_eq:
  "validateStyleObject v filePath location htmlAttrs s =
     add_warnings (concat (map (style_diags filePath location htmlAttrs) (properties v))) s"
  unfolding validateStyleObject_def
  by (rule fold_add_warnings) (rule validateStyleObject_each_eq)

lemma validateOnObject_eq:
  "validateOnObject v filePath location s =
     add_warnings (concat (map (on_diags filePath location) (properties v))) s"
  unfolding validateOnObject_def
  by (rule fold_add_warnings) (rule validateOnObject_each_eq)

lemma validateComponentStructure_eq:
  "validateComponentStructure node filePath location s =
     add_warnings (component_diags filePath location node) s"
  by (simp add: validateComponentStructure_def component_diags_def sub_object_def Let_def
           validatePropsObject_eq validateStyleObject_eq validateOnObject_eq
           split: option.splits)

lemma checkObjectExpression_eq:
  "checkObjectExpression node filePath s =
     add_warnings (if isDOMQLComponent node
                   then component_diags filePath (objexp_loc node) node else []) s"
  by (simp add: checkObjectExpression_def Let_def validateComponentStructure_eq)

lemma concat_map_if_filter:
  "concat (map (\<lambda>x. if P x then g x else []) xs) = concat (map g (filter P xs))"
  by (induction xs) simp_all

lemma lintFile_eq:
  "lintFile e filePath s =
     add_warnings (file_warnings e filePath) (add_errors (file_errors e filePath) s)"
proof (cases "load e filePath")
  case (Inl msg)
  then show ?thesis
    by (auto simp: lintFile_def load_def file_errors_def file_warnings_def push_error_def
          add_errors_def split: sum.splits)
next
  case (Inr ast)
  have v: "fold (\<lambda>path. checkObjectExpression path filePath) ns s =
        add_warnings (concat (map (\<lambda>node. component_diags filePath (objexp_loc node) node)
                 (filter isDOMQLComponent ns))) s" for ns
    unfolding concat_map_if_filter [symmetric]
    by (rule fold_add_warnings) (rule checkObjectExpression_eq)
  from Inr obtain content where c: "readFileSync e filePath = Inr content"
      "parse e content = Inr ast"
    by (auto simp: load_def split: sum.splits)
  show ?thesis
  proof (cases "traverse_throws e ast")
    case None
    with Inr c show ?thesis
      by (simp add: lintFile_def file_errors_def file_warnings_def traverse_def visited_def
            traverse_errors_def v)
  next
    case (Some a)
    obtain k msg where a: "a = (k, msg)"
      by (cases a)
    with Some Inr c show ?thesis
      by (simp add: lintFile_def file_errors_def file_warnings_def traverse_def visited_def
            traverse_errors_def v push_error_def add_errors_def add_warnings_def)
  qed
qed

lemma fold_lintFile_eq:
  "fold (lintFile e) fs s =
     add_warnings (concat (map (file_warnings e) fs))
       (add_errors (concat (map (file_errors e) fs)) s)"
proof (induction fs arbitrary: s)
  case Nil
  show ?case by simp
next
  case (Cons f fs)
  have "fold (lintFile e) (f # fs) s = fold (lintFile e) fs (lintFile e f s)"
    by simp
  also have "\<dots> = add_warnings (concat (map (file_warnings e) fs))
       (add_errors (concat (map (file_errors e) fs)) (lintFile e f s))"
    by (rule Cons.IH)
  also have "\<dots> = add_warnings (concat (map (file_warnings e) (f # fs)))
       (add_errors (concat (map (file_errors e) (f # fs))) s)"
    by (simp add: lintFile_eq add_warnings_def add_errors_def)
  finally show ?case .
qed

section \<open>Facts about the tables and about small components\<close>

lemma style_name_not_event:
  "name \<in> set getStyleProperties \<Longrightarrow> \<not> has getEventHandlers name"
  unfolding getStyleProperties_def getEventHandlers_def has_def by auto

lemma style_name_not_attribute:
  "name \<in> set getStyleProperties \<Longrightarrow> \<not> has getHTMLAttributes name"
  unfolding getStyleProperties_def getHTMLAttributes_def has_def by auto

lemma style_name_not_prefixed:
  "name \<in> set getStyleProperties \<Longrightarrow>
     \<not> startsWith name ''data-'' \<and> \<not> startsWith name ''aria-''"
  unfolding getStyleProperties_def startsWith_def by auto

text \<open>
  With an identifier key the check of the \<^verbatim>\<open>style\<close> sub-object does flag the names of the
  attribute table and the names with one of the two prefixes, and the check of the
  \<^verbatim>\<open>props\<close> sub-object lets them pass.
\<close>

lemma attribute_name_not_style_or_event:
  "has getHTMLAttributes name \<or> startsWith name ''data-'' \<or> startsWith name ''aria-'' \<Longrightarrow>
     \<not> has getStyleProperties name \<and> \<not> has getEventHandlers name"
  unfolding getStyleProperties_def getHTMLAttributes_def getEventHandlers_def has_def
    startsWith_def
  by auto

lemma identifier_attribute_in_style_and_props:
  assumes "has getHTMLAttributes name \<or> startsWith name ''data-'' \<or> startsWith name ''aria-''"
      and "prop_key prop = Some (Identifier name)"
  shows "validateStyleObject_each filePath location getHTMLAttributes prop s =
           s\<lparr>warnings := warnings s @ [attr_in_style filePath prop location name]\<rparr>"
    and "validatePropsObject_each filePath location getStyleProperties getHTMLAttributes
           getEventHandlers prop s = s"
  using assms attribute_name_not_style_or_event [OF assms(1)]
  by (simp_all add: validateStyleObject_each_def validatePropsObject_each_def push_warning_def)

lemma find_key_named_single:
  "List.find (key_named k) [ObjectProperty l (Identifier k') c v] =
     (if k' = k then Some (ObjectProperty l (Identifier k') c v) else None)"
  by (simp add: key_named_def)

lemma sub_object_single:
  "sub_object k (ObjExp cl [ObjectProperty pl (Identifier k') c (ObjectExpression (ObjExp ol ps))]) =
     (if k' = k then ps else [])"
  by (simp add: sub_object_def key_named_def object_value_def)

section \<open>Runs and examples\<close>

lemma errors_add_warnings [simp]: "errors (add_warnings ws s) = errors s"
  by (simp add: add_warnings_def)

lemma warnings_add_warnings [simp]: "warnings (add_warnings ws s) = warnings s @ ws"
  by (simp add: add_warnings_def)

lemma errors_add_errors [simp]: "errors (add_errors es s) = errors s @ es"
  by (simp add: add_errors_def)

lemma warnings_add_errors [simp]: "warnings (add_errors es s) = warnings s"
  by (simp add: add_errors_def)

lemma files_add [simp]:
  "files (add_warnings ws s) = files s" "files (add_errors es s) = files s"
  "ignore (add_warnings ws s) = ignore s" "ignore (add_errors es s) = ignore s"
  by (simp_all add: add_warnings_def add_errors_def)

lemma constructor_fresh [simp]:
  "errors (constructor opts) = []" "warnings (constructor opts) = []"
  by (simp_all add: constructor_def)

lemma lintFile_fresh:
  "errors (lintFile e f (s\<lparr>errors := [], warnings := []\<rparr>)) = file_errors e f"
  "warnings (lintFile e f (s\<lparr>errors := [], warnings := []\<rparr>)) = file_warnings e f"
  by (simp_all add: lintFile_eq)

lemma lint_eq:
  "snd (lint e s) =
     add_warnings (concat (map (file_warnings e) (glob e (files s) (ignore s))))
       (add_errors (concat (map (file_errors e) (glob e (files s) (ignore s)))) s)"
  by (simp add: lint_def Let_def fold_lintFile_eq)

lemma fst_lint: "fst (lint e s) = (errors (snd (lint e s)) = [])"
  by (simp add: lint_def Let_def)


lemma file_errors_severity: "d \<in> set (file_errors e f) \<Longrightarrow> severity d = Error"
  by (auto simp: file_errors_def traverse_errors_def parse_error_def
        split: sum.splits option.splits)

lemma props_diags_severity:
  "d \<in> set (props_diags f l sp eh p) \<Longrightarrow> severity d = Warning"
  by (auto simp: props_diags_def style_in_props_def event_in_props_def
        split: option.splits node.splits if_splits)

lemma style_diags_severity:
  "d \<in> set (style_diags f l ha p) \<Longrightarrow> severity d = Warning"
  by (auto simp: style_diags_def attr_in_style_def split: option.splits node.splits if_splits)

lemma on_diags_severity:
  "d \<in> set (on_diags f l p) \<Longrightarrow> severity d = Warning"
  by (auto simp: on_diags_def not_handler_in_on_def split: option.splits node.splits if_splits)

lemma component_diags_severity:
  "d \<in> set (component_diags f l n) \<Longrightarrow> severity d = Warning"
  by (auto simp: component_diags_def
        dest: props_diags_severity style_diags_severity on_diags_severity)

lemma file_warnings_severity: "d \<in> set (file_warnings e f) \<Longrightarrow> severity d = Warning"
  by (auto simp: file_warnings_def split: sum.splits dest: component_diags_severity)

lemma filter_all: "(\<And>x. x \<in> set xs \<Longrightarrow> P x) \<Longrightarrow> filter P xs = xs"
  by (induction xs) simp_all

lemma filter_none: "(\<And>x. x \<in> set xs \<Longrightarrow> \<not> P x) \<Longrightarrow> filter P xs = []"
  by (induction xs) simp_all

lemma each_fresh:
  "warnings (validatePropsObject_each f l sp ha eh p (s\<lparr>errors := [], warnings := []\<rparr>)) =
     props_diags f l sp eh p"
  "warnings (validateStyleObject_each f l ha p (s\<lparr>errors := [], warnings := []\<rparr>)) =
     style_diags f l ha p"
  "warnings (validateOnObject_each f l p (s\<lparr>errors := [], warnings := []\<rparr>)) =
     on_diags f l p"
  by (simp_all add: validatePropsObject_each_eq validateStyleObject_each_eq
        validateOnObject_each_eq)

lemma checkObjectExpression_fresh:
  "warnings (checkObjectExpression n f (s\<lparr>errors := [], warnings := []\<rparr>)) =
     (if isDOMQLComponent n then component_diags f (objexp_loc n) n else [])"
  by (simp add: checkObjectExpression_eq)

lemmas example_simps =
  lint_def lintFile_def traverse_def checkObjectExpression_def isDOMQLComponent_def
  key_named_def validateComponentStructure_def object_value_def
  validatePropsObject_def validatePropsObject_each_def
  validateStyleObject_def validateStyleObject_each_def
  validateOnObject_def validateOnObject_each_def
  has_def array_includes_def startsWith_def push_warning_def push_error_def
  getStyleProperties_def getHTMLAttributes_def getEventHandlers_def
  resolve_line_def resolve_column_def js_or_def start_line_def start_column_def at_def
  style_in_props_def event_in_props_def attr_in_style_def not_handler_in_on_def
  parse_error_def module_of_def constructor_def default_options_def Let_def quoted_def


lemma example_component_diags:
  "component_diags f (objexp_loc example_component) example_component = example_warnings f"
  by (simp add: component_diags_def sub_object_def object_value_def key_named_def
        example_component_def props_diags_def style_diags_def on_diags_def
        has_def array_includes_def startsWith_def
        getStyleProperties_def getHTMLAttributes_def getEventHandlers_def
        style_in_props_def event_in_props_def attr_in_style_def not_handler_in_on_def
        resolve_line_def resolve_column_def js_or_def start_line_def start_column_def at_def
        example_warnings_def quoted_def)

lemma example_component_nested:
  "filter isDOMQLComponent (object_expressions (module_of (ObjectExpression example_component)))
     = [example_component]"
  by (simp add: module_of_def example_component_def isDOMQLComponent_def key_named_def)

lemma example_component_run:
  "lint (one_file_env example_component) (constructor default_options) =
     (True, (constructor default_options)\<lparr>warnings := example_warnings ''a.js''\<rparr>)"
  by (simp add: lint_def Let_def one_file_env_def lintFile_eq file_errors_def
        file_warnings_def load_def visited_def traverse_errors_def example_component_nested
        example_component_diags add_warnings_def constructor_def)

lemma example_env_run:
  "lint example_env (constructor default_options) =
     (False, (constructor default_options)
        \<lparr>errors := [\<lparr> diag_file = ''b.js'', line = 1, column = 1,
                      message = ''Parse error: Unexpected token (1:5)'',
                      severity = Error, suggestion = None \<rparr>],
         warnings := example_warnings ''a.js'' @ example_warnings ''c.js''\<rparr>)"
  by (simp add: lint_def Let_def example_env_def lintFile_eq file_errors_def
        file_warnings_def load_def visited_def traverse_errors_def example_component_nested
        example_component_diags add_warnings_def add_errors_def constructor_def
        parse_error_def)

section \<open>Counting the warnings with a given message\<close>

lemma messages_of_props_diags:
  "d \<in> set (props_diags f l sp eh p) \<Longrightarrow>
     (\<exists>n. prop_key p = Some (Identifier n) \<and> has sp n \<and> d = style_in_props f p l n) \<or>
     (\<exists>n. prop_key p = Some (Identifier n) \<and> has eh n \<and> d = event_in_props f p l n)"
  by (cases "prop_key p") (auto simp: props_diags_def split: node.splits if_splits)

lemma messages_of_style_diags:
  "d \<in> set (style_diags f l ha p) \<Longrightarrow>
     (\<exists>n. prop_key p = Some (Identifier n) \<and>
          (has ha n \<or> startsWith n ''data-'' \<or> startsWith n ''aria-'') \<and>
          d = attr_in_style f p l n)"
  by (cases "prop_key p") (auto simp: style_diags_def split: node.splits if_splits)

lemma messages_of_on_diags:
  "d \<in> set (on_diags f l p) \<Longrightarrow>
     (\<exists>n. prop_key p = Some (Identifier n) \<and> d = not_handler_in_on f p l n)"
  by (cases "prop_key p") (auto simp: on_diags_def split: node.splits if_splits)

lemma message_style_in_props [simp]:
  "message (style_in_props f p l n) = claimed_style_message n"
  by (simp add: style_in_props_def claimed_style_message_def quoted_def)

lemma message_attr_in_style [simp]:
  "message (attr_in_style f p l n) = claimed_attribute_message n"
  by (simp add: attr_in_style_def claimed_attribute_message_def quoted_def)

lemma message_not_handler_in_on [simp]:
  "message (not_handler_in_on f p l n) = claimed_on_message n"
  by (simp add: not_handler_in_on_def claimed_on_message_def quoted_def)

lemma message_event_in_props [simp]:
  "message (event_in_props f p l n) \<noteq> claimed_style_message m"
  "message (event_in_props f p l n) \<noteq> claimed_attribute_message m"
  "message (event_in_props f p l n) \<noteq> claimed_on_message m"
  by (simp_all add: event_in_props_def claimed_style_message_def claimed_attribute_message_def
        claimed_on_message_def)

lemma claimed_messages_inj [simp]:
  "claimed_style_message n = claimed_style_message m \<longleftrightarrow> n = m"
  "claimed_attribute_message n = claimed_attribute_message m \<longleftrightarrow> n = m"
  "claimed_on_message n = claimed_on_message m \<longleftrightarrow> n = m"
  by (simp_all add: claimed_style_message_def claimed_attribute_message_def
        claimed_on_message_def)

lemma claimed_messages_distinct [simp]:
  "claimed_style_message n \<noteq> claimed_attribute_message m"
  "claimed_style_message n \<noteq> claimed_on_message m"
  "claimed_attribute_message n \<noteq> claimed_style_message m"
  "claimed_attribute_message n \<noteq> claimed_on_message m"
  "claimed_on_message n \<noteq> claimed_style_message m"
  "claimed_on_message n \<noteq> claimed_attribute_message m"
  by (simp_all add: claimed_style_message_def claimed_attribute_message_def
        claimed_on_message_def)

lemma filter_concat_none:
  "(\<And>x d. x \<in> set xs \<Longrightarrow> d \<in> set (g x) \<Longrightarrow> \<not> P d) \<Longrightarrow>
     filter P (concat (map g xs)) = []"
  by (induction xs) (auto simp: filter_empty_conv)

lemma length_filter_concat:
  "(\<And>x. x \<in> set xs \<Longrightarrow> length (filter P (g x)) = (if Q x then 1 else 0)) \<Longrightarrow>
     length (filter P (concat (map g xs))) = length (filter Q xs)"
  by (induction xs) auto

lemma style_message_count_props:
  assumes "name \<in> set getStyleProperties"
  shows "length (filter (\<lambda>d. message d = claimed_style_message name)
           (concat (map (props_diags f l getStyleProperties getEventHandlers) ps))) =
         length (filter (\<lambda>p. prop_key p = Some (Identifier name)) ps)"
proof (rule length_filter_concat)
  fix p
  show "length (filter (\<lambda>d. message d = claimed_style_message name)
           (props_diags f l getStyleProperties getEventHandlers p)) =
        (if prop_key p = Some (Identifier name) then 1 else 0)"
    using assms
    by (auto simp: props_diags_def has_def split: option.splits node.splits)
qed

lemma on_message_count_on:
  "length (filter (\<lambda>d. message d = claimed_on_message name)
           (concat (map (on_diags f l) ps))) =
   (if \<not> startsWith name ''on''
       \<and> name \<notin> {''mouseenter'', ''mouseleave'', ''click'', ''keydown'', ''keyup''}
    then length (filter (\<lambda>p. prop_key p = Some (Identifier name)) ps) else 0)"
proof (cases "\<not> startsWith name ''on''
       \<and> name \<notin> {''mouseenter'', ''mouseleave'', ''click'', ''keydown'', ''keyup''}")
  case True
  have "length (filter (\<lambda>d. message d = claimed_on_message name)
           (concat (map (on_diags f l) ps))) =
        length (filter (\<lambda>p. prop_key p = Some (Identifier name)) ps)"
  proof (rule length_filter_concat)
    fix p
    show "length (filter (\<lambda>d. message d = claimed_on_message name) (on_diags f l p)) =
          (if prop_key p = Some (Identifier name) then 1 else 0)"
      using True
      by (auto simp: on_diags_def array_includes_def split: option.splits node.splits)
  qed
  with True show ?thesis by auto
next
  case False
  have "filter (\<lambda>d. message d = claimed_on_message name)
           (concat (map (on_diags f l) ps)) = []"
  proof (rule filter_concat_none)
    fix p d
    assume "d \<in> set (on_diags f l p)"
    then show "message d \<noteq> claimed_on_message name"
      using False
      by (auto simp: on_diags_def array_includes_def split: option.splits node.splits if_splits)
  qed
  with False show ?thesis by auto
qed

lemma no_style_message_elsewhere:
  "filter (\<lambda>d. message d = claimed_style_message name)
     (concat (map (style_diags f l ha) ps)) = []"
  "filter (\<lambda>d. message d = claimed_style_message name)
     (concat (map (on_diags f l) ps)) = []"
  by (rule filter_concat_none; auto dest!: messages_of_style_diags messages_of_on_diags)+

lemma no_on_message_elsewhere:
  "filter (\<lambda>d. message d = claimed_on_message name)
     (concat (map (props_diags f l sp eh) ps)) = []"
  "filter (\<lambda>d. message d = claimed_on_message name)
     (concat (map (style_diags f l ha) ps)) = []"
  by (rule filter_concat_none; auto dest!: messages_of_props_diags messages_of_style_diags)+

lemma no_attribute_message_for_style_name:
  assumes "name \<in> set getStyleProperties"
  shows "filter (\<lambda>d. message d = claimed_attribute_message name)
           (component_diags f l node) = []"
proof -
  have a: "\<not> has getHTMLAttributes name"
      "\<not> startsWith name ''data-''" "\<not> startsWith name ''aria-''"
    using style_name_not_attribute [OF assms] style_name_not_prefixed [OF assms]
    by simp_all
  have "filter (\<lambda>d. message d = claimed_attribute_message name)
          (concat (map (props_diags f l getStyleProperties getEventHandlers) ps)) = []" for ps
    by (rule filter_concat_none) (auto dest!: messages_of_props_diags)
  moreover have "filter (\<lambda>d. message d = claimed_attribute_message name)
          (concat (map (style_diags f l getHTMLAttributes) ps)) = []" for ps
    by (rule filter_concat_none) (use a in \<open>auto dest!: messages_of_style_diags\<close>)
  moreover have "filter (\<lambda>d. message d = claimed_attribute_message name)
          (concat (map (on_diags f l) ps)) = []" for ps
    by (rule filter_concat_none) (auto dest!: messages_of_on_diags)
  ultimately show ?thesis
    by (simp add: component_diags_def)
qed

lemma warnings_validateComponentStructure:
  "warnings (validateComponentStructure node f l s) = warnings s @ component_diags f l node"
  "errors (validateComponentStructure node f l s) = errors s"
  by (simp_all add: validateComponentStructure_eq)

lemma nested_component_literals:
  "map objexp_loc (object_expressions (module_of (ObjectExpression nested_component))) =
     [at 1 17, at 2 9, at 2 32, at 2 41, at 3 9, at 4 9, at 4 15]"
  by (simp add: module_of_def nested_component_def)

section \<open>The claims\<close>

text \<open>
  Claim C10. In each of the three sub-object checks, a property whose key is not an
  identifier (a string-literal key such as \<^verbatim>\<open>'data-testid'\<close>, any other key, or a spread
  element, which has no key) leaves the linter as it was: no diagnostic is appended,
  whatever the tables hold. So only a property with an identifier key can trigger a
  warning.
\<close>

theorem non_identifier_key_never_examined:
  assumes "\<forall>name. prop_key prop \<noteq> Some (Identifier name)"
  shows "validatePropsObject_each filePath location styleProps htmlAttrs eventHandlers prop s = s
       \<and> validateStyleObject_each filePath location htmlAttrs prop s = s
       \<and> validateOnObject_each filePath location prop s = s"
  using assms
  by (simp add: validatePropsObject_each_def validateStyleObject_each_def
        validateOnObject_each_def split: option.splits node.splits)

theorem non_identifier_key_never_examined_witness:
  "validatePropsObject_each ''a.js'' None [''data-testid''] [''data-testid''] [''data-testid'']
      (ObjectProperty None (StringLiteral ''data-testid'') False (StringLiteral ''b''))
      (constructor \<lparr>opt_files = None, opt_ignore = None\<rparr>) =
      constructor \<lparr>opt_files = None, opt_ignore = None\<rparr>
   \<and> validateStyleObject_each ''a.js'' None getHTMLAttributes
      (ObjectProperty None (StringLiteral ''data-testid'') False (StringLiteral ''b''))
      (constructor \<lparr>opt_files = None, opt_ignore = None\<rparr>) =
      constructor \<lparr>opt_files = None, opt_ignore = None\<rparr>
   \<and> validateOnObject_each ''a.js'' None
      (ObjectProperty None (StringLiteral ''data-testid'') False (StringLiteral ''b''))
      (constructor \<lparr>opt_files = None, opt_ignore = None\<rparr>) =
      constructor \<lparr>opt_files = None, opt_ignore = None\<rparr>"
proof -
  have h: "\<forall>name. prop_key (ObjectProperty None (StringLiteral ''data-testid'') False
              (StringLiteral ''b'')) \<noteq> Some (Identifier name)"
    by simp
  show ?thesis
    using non_identifier_key_never_examined [OF h] by blast
qed

text \<open>
  Claim C4, as stated, fails on the code in both directions. A literal whose only key is
  the string literal \<^verbatim>\<open>'props'\<close> is a component by the specification's sentence and not
  by the code, which reads \<^verbatim>\<open>key.name\<close>, a field a string literal does not have. A
  literal whose only key is the computed key \<^verbatim>\<open>[props]\<close> is not a component by the
  specification's sentence and is one by the code, which never reads \<^verbatim>\<open>computed\<close>.
\<close>

theorem string_and_computed_keys_counterexample:
  "spec_isComponent
     (ObjExp None [ObjectProperty None (StringLiteral ''props'') False
                     (ObjectExpression (ObjExp None []))])
   \<and> \<not> isDOMQLComponent
     (ObjExp None [ObjectProperty None (StringLiteral ''props'') False
                     (ObjectExpression (ObjExp None []))])
   \<and> \<not> spec_isComponent
     (ObjExp None [ObjectProperty None (Identifier ''props'') True (StringLiteral ''v'')])
   \<and> isDOMQLComponent
     (ObjExp None [ObjectProperty None (Identifier ''props'') True (StringLiteral ''v'')])"
  by (simp add: spec_isComponent_def spec_static_key_def isDOMQLComponent_def key_named_def
        array_includes_def)

text \<open>
  Claim C4, amended: the detector returns true iff at least one direct property of the
  literal has an identifier key, computed or not, named \<^verbatim>\<open>extend\<close>, \<^verbatim>\<open>props\<close>, \<^verbatim>\<open>style\<close> or
  \<^verbatim>\<open>on\<close>; string-literal keys, keys of any other kind and spread elements contribute
  nothing.
\<close>

theorem isDOMQLComponent_iff_identifier_key:
  "isDOMQLComponent node \<longleftrightarrow>
     (\<exists>prop \<in> set (properties node).
        \<exists>k \<in> {''extend'', ''props'', ''style'', ''on''}. prop_key prop = Some (Identifier k))"
proof -
  have "key_named k p \<longleftrightarrow> prop_key p = Some (Identifier k)" for k p
    by (cases "prop_key p"; cases "the (prop_key p)") (auto simp: key_named_def)
  then show ?thesis
    by (auto simp: isDOMQLComponent_def list_ex_iff)
qed

theorem isDOMQLComponent_iff_identifier_key_witness:
  "isDOMQLComponent
     (ObjExp None [SpreadElement None (OtherNode ''Identifier'' []),
                   ObjectProperty None (Identifier ''extend'') False (StringLiteral ''div'')])
   \<and> \<not> isDOMQLComponent
     (ObjExp None [ObjectProperty None (StringLiteral ''extend'') False (StringLiteral ''div'')])"
  using isDOMQLComponent_iff_identifier_key [of
      "ObjExp None [SpreadElement None (OtherNode ''Identifier'' []),
                   ObjectProperty None (Identifier ''extend'') False (StringLiteral ''div'')]"]
    isDOMQLComponent_iff_identifier_key [of
      "ObjExp None [ObjectProperty None (StringLiteral ''extend'') False (StringLiteral ''div'')]"]
  by simp

text \<open>
  Claim C5. When a file is read and its parse fails with a message, \<open>lintFile\<close> appends
  exactly one diagnostic to the errors: the file, line 1, column 1, the message
  \<^verbatim>\<open>Parse error: <underlying message>\<close>, severity error; nothing else of the linter
  changes. The run goes on: in a run whose file list is \<open>fs @ f # gs\<close>, with \<open>f\<close> the
  failing file, the errors of the run are those of the files before \<open>f\<close>, this one
  diagnostic, and those of the files after \<open>f\<close>, and the warnings of the run are those
  that the files before and after \<open>f\<close> produce on their own.
\<close>

theorem parse_failure_one_error_run_continues:
  assumes "readFileSync e f = Inr content"
      and "parse e content = Inl msg"
      and "glob e (files s) (ignore s) = fs @ f # gs"
  shows "lintFile e f t =
           t\<lparr>errors := errors t @
             [\<lparr> diag_file = f, line = 1, column = 1,
                message = ''Parse error: '' @ msg,
                severity = Error, suggestion = None \<rparr>]\<rparr>
       \<and> errors (snd (lint e s)) =
           errors s @
           concat (map (\<lambda>g. errors (lintFile e g (s\<lparr>errors := [], warnings := []\<rparr>))) fs) @
           [\<lparr> diag_file = f, line = 1, column = 1,
              message = ''Parse error: '' @ msg,
              severity = Error, suggestion = None \<rparr>] @
           concat (map (\<lambda>g. errors (lintFile e g (s\<lparr>errors := [], warnings := []\<rparr>))) gs)
       \<and> warnings (snd (lint e s)) =
           warnings s @
           concat (map (\<lambda>g. warnings (lintFile e g (s\<lparr>errors := [], warnings := []\<rparr>)))
                       (fs @ gs))"
proof -
  have ld: "load e f = Inl msg"
    using assms(1,2) by (simp add: load_def)
  have fe: "file_errors e f = [parse_error f msg]"
    by (simp add: file_errors_def ld)
  have fw: "file_warnings e f = []"
    by (simp add: file_warnings_def ld)
  have one: "lintFile e f t = t\<lparr>errors := errors t @ [parse_error f msg]\<rparr>"
    by (simp add: lintFile_eq fe fw add_errors_def)
  have es: "errors (snd (lint e s)) =
      errors s @ concat (map (file_errors e) fs) @ [parse_error f msg] @
      concat (map (file_errors e) gs)"
    by (simp add: lint_eq assms(3) fe)
  have ws: "warnings (snd (lint e s)) =
      warnings s @ concat (map (file_warnings e) (fs @ gs))"
    by (simp add: lint_eq assms(3) fw)
  show ?thesis
    using one es ws by (simp add: lintFile_fresh parse_error_def)
qed


theorem parse_failure_one_error_run_continues_witness:
  "errors (snd (lint example_env (constructor default_options))) =
     [\<lparr> diag_file = ''b.js'', line = 1, column = 1,
        message = ''Parse error: Unexpected token (1:5)'',
        severity = Error, suggestion = None \<rparr>]
   \<and> warnings (snd (lint example_env (constructor default_options))) =
       concat (map (\<lambda>g. warnings (lintFile example_env g (constructor default_options)))
                   [''a.js'', ''c.js''])
   \<and> map (\<lambda>d. (diag_file d, line d, column d))
          (warnings (snd (lint example_env (constructor default_options)))) =
     [(''a.js'', 2, 11), (''a.js'', 2, 27), (''a.js'', 3, 11), (''a.js'', 4, 8),
      (''c.js'', 2, 11), (''c.js'', 2, 27), (''c.js'', 3, 11), (''c.js'', 4, 8)]"
proof -
  have h1: "readFileSync example_env ''b.js'' = Inr ''source of b.js''"
    by (simp add: example_env_def)
  have h2: "parse example_env ''source of b.js'' = Inl ''Unexpected token (1:5)''"
    by (simp add: example_env_def)
  have h3: "glob example_env (files (constructor default_options))
              (ignore (constructor default_options)) = [''a.js''] @ ''b.js'' # [''c.js'']"
    by (simp add: example_env_def)
  have fresh: "(constructor default_options)\<lparr>errors := [], warnings := []\<rparr> =
                 constructor default_options"
    by (simp add: constructor_def)
  have ws: "warnings (snd (lint example_env (constructor default_options))) =
       concat (map (\<lambda>g. warnings (lintFile example_env g (constructor default_options)))
                   [''a.js'', ''c.js''])"
    using parse_failure_one_error_run_continues [OF h1 h2 h3]
    by (simp add: fresh)
  have es: "errors (snd (lint example_env (constructor default_options))) =
     [\<lparr> diag_file = ''b.js'', line = 1, column = 1,
        message = ''Parse error: Unexpected token (1:5)'',
        severity = Error, suggestion = None \<rparr>]"
    by (simp add: example_env_run)
  have ps: "map (\<lambda>d. (diag_file d, line d, column d))
          (warnings (snd (lint example_env (constructor default_options)))) =
     [(''a.js'', 2, 11), (''a.js'', 2, 27), (''a.js'', 3, 11), (''a.js'', 4, 8),
      (''c.js'', 2, 11), (''c.js'', 2, 27), (''c.js'', 3, 11), (''c.js'', 4, 8)]"
    by (simp add: example_env_run example_warnings_def)
  show ?thesis
    using es ws ps by blast
qed

text \<open>
  Claim C6. For a run of a newly constructed linter, the success flag is true iff no
  diagnostic of severity error is among all the diagnostics of the run, errors and
  warnings together. For any linter, the flag is the emptiness of the errors alone: the
  warnings are never read.
\<close>

theorem success_iff_no_error_diagnostic:
  "(fst (lint e (constructor opts)) \<longleftrightarrow>
      filter (\<lambda>d. severity d = Error)
        (errors (snd (lint e (constructor opts))) @
         warnings (snd (lint e (constructor opts)))) = [])
   \<and> fst (lint e s) = (errors (snd (lint e s)) = [])"
proof -
  let ?fs = "glob e (files (constructor opts)) (ignore (constructor opts))"
  have es: "errors (snd (lint e (constructor opts))) = concat (map (file_errors e) ?fs)"
    by (simp add: lint_eq)
  have ws: "warnings (snd (lint e (constructor opts))) = concat (map (file_warnings e) ?fs)"
    by (simp add: lint_eq)
  have "filter (\<lambda>d. severity d = Error) (concat (map (file_errors e) ?fs)) =
          concat (map (file_errors e) ?fs)"
    by (rule filter_all) (auto dest: file_errors_severity)
  moreover have "filter (\<lambda>d. severity d = Error) (concat (map (file_warnings e) ?fs)) = []"
    by (rule filter_none) (auto dest: file_warnings_severity)
  ultimately have "filter (\<lambda>d. severity d = Error)
        (errors (snd (lint e (constructor opts))) @
         warnings (snd (lint e (constructor opts)))) =
      errors (snd (lint e (constructor opts)))"
    by (simp add: es ws)
  then show ?thesis
    by (simp add: fst_lint)
qed

theorem success_iff_no_error_diagnostic_witness:
  "\<not> fst (lint example_env (constructor default_options))
   \<and> filter (\<lambda>d. severity d = Error)
        (errors (snd (lint example_env (constructor default_options))) @
         warnings (snd (lint example_env (constructor default_options)))) \<noteq> []
   \<and> fst (lint (one_file_env example_component) (constructor default_options))
   \<and> map severity (errors (snd (lint (one_file_env example_component)
                                   (constructor default_options))) @
                   warnings (snd (lint (one_file_env example_component)
                                   (constructor default_options)))) =
       [Warning, Warning, Warning, Warning]"
proof -
  have "\<not> fst (lint example_env (constructor default_options))"
    by (simp add: example_env_run)
  then have "filter (\<lambda>d. severity d = Error)
        (errors (snd (lint example_env (constructor default_options))) @
         warnings (snd (lint example_env (constructor default_options)))) \<noteq> []"
    using success_iff_no_error_diagnostic [of example_env default_options] by blast
  then show ?thesis
    by (simp add: example_component_run example_env_run example_warnings_def)
qed

text \<open>
  Claim C9. The diagnostics a run appends depend on the input alone, not on what the
  linter already holds: a run on a linter \<open>t\<close> appends exactly the errors and warnings
  that a run on an empty linter with the same options yields. So two runs on the same
  input yield the same sequence, and a second run on the same linter object appends the
  sequence of the first once more.
\<close>

theorem every_run_appends_the_same_sequence:
  assumes "files t = files s" and "ignore t = ignore s"
  shows "errors (snd (lint e t)) =
           errors t @ errors (snd (lint e (s\<lparr>errors := [], warnings := []\<rparr>)))
       \<and> warnings (snd (lint e t)) =
           warnings t @ warnings (snd (lint e (s\<lparr>errors := [], warnings := []\<rparr>)))
       \<and> errors (snd (lint e (snd (lint e (constructor opts))))) =
           errors (snd (lint e (constructor opts))) @ errors (snd (lint e (constructor opts)))
       \<and> warnings (snd (lint e (snd (lint e (constructor opts))))) =
           warnings (snd (lint e (constructor opts))) @
           warnings (snd (lint e (constructor opts)))"
proof -
  have keep: "files (snd (lint e u)) = files u" "ignore (snd (lint e u)) = ignore u" for u
    by (simp_all add: lint_eq)
  have fresh: "errors (constructor opts) = []" "warnings (constructor opts) = []"
    by (simp_all add: constructor_def)
  show ?thesis
    using assms by (simp add: lint_eq keep fresh)
qed

theorem every_run_appends_the_same_sequence_witness:
  "warnings (snd (lint (one_file_env example_component)
      (snd (lint (one_file_env example_component) (constructor default_options))))) =
     example_warnings ''a.js'' @ example_warnings ''a.js''
   \<and> warnings (snd (lint (one_file_env example_component) (constructor default_options))) =
     example_warnings ''a.js''"
proof -
  have h: "files (snd (lint (one_file_env example_component) (constructor default_options))) =
             files (constructor default_options)"
          "ignore (snd (lint (one_file_env example_component) (constructor default_options))) =
             ignore (constructor default_options)"
    by (simp_all add: example_component_run)
  have fresh: "(constructor default_options)\<lparr>errors := [], warnings := []\<rparr> =
                 constructor default_options"
    by (simp add: constructor_def)
  have "warnings (snd (lint (one_file_env example_component)
      (snd (lint (one_file_env example_component) (constructor default_options))))) =
     warnings (snd (lint (one_file_env example_component) (constructor default_options))) @
     warnings (snd (lint (one_file_env example_component) (constructor default_options)))"
    using every_run_appends_the_same_sequence [OF h, of "one_file_env example_component"]
    by (simp add: fresh)
  then show ?thesis
    by (simp add: example_component_run)
qed

text \<open>
  Claim C2 fails on the code at an input the repository's own documentation and test
  file mark as wrong: a component whose \<^verbatim>\<open>style\<close> sub-object holds the field
  \<^verbatim>\<open>'data-wrong': 'value'\<close>. A name with a hyphen can only be written as a string-literal
  key, the check of the \<^verbatim>\<open>style\<close> sub-object examines identifier keys only, and so the
  literal is recognised as a component and the run ends with no diagnostic at all.
\<close>

theorem string_key_in_style_not_flagged:
  "isDOMQLComponent string_key_component
   \<and> lint (one_file_env string_key_component) (constructor default_options) =
       (True, constructor default_options)"
  by (simp add: example_simps one_file_env_def string_key_component_def)

text \<open>
  Claim C7 fails on the code at a property that starts in column 0, which is a position
  the parser really gives, its columns being counted from 0. The component literal starts
  at line 1, column 17; the misplaced property \<^verbatim>\<open>width\<close> of its \<^verbatim>\<open>props\<close> sub-object
  starts at line 3, column 0. The warning is reported at line 3, column 17: the line of
  the property with the column of the component literal, because \<^verbatim>\<open>||\<close> takes the
  number 0 for a missing value.
\<close>

theorem column_zero_reported_as_component_column:
  "map (\<lambda>d. (line d, column d))
       (warnings (snd (lint (one_file_env column_zero_component) (constructor default_options))))
     = [(3, 17)]"
  by (simp add: example_simps one_file_env_def column_zero_component_def)

text \<open>
  Claim C1, as stated, fails on the code. The style name \<^verbatim>\<open>width\<close> under the string-literal
  key \<^verbatim>\<open>'width'\<close> in the \<^verbatim>\<open>props\<close> sub-object is a field with that static name in a
  recognised component, and the run gives no warning: the check of the sub-object
  examines identifier keys only. The same name under an identifier key, in an object
  literal that is the value of the second of two \<^verbatim>\<open>props\<close> keys, gives no warning either:
  the validator takes the first property named \<^verbatim>\<open>props\<close> and, its value being no object
  literal, skips the check.
\<close>

theorem string_key_style_name_in_props_counterexample:
  "''width'' \<in> set getStyleProperties
   \<and> map spec_static_key (spec_sub_object_fields ''props'' string_key_in_props) =
       [Some ''width'']
   \<and> isDOMQLComponent string_key_in_props
   \<and> warnings (snd (lint (one_file_env string_key_in_props) (constructor default_options)))
       = []
   \<and> map spec_static_key (spec_sub_object_fields ''props'' second_props_key) =
       [Some ''width'']
   \<and> isDOMQLComponent second_props_key
   \<and> warnings (snd (lint (one_file_env second_props_key) (constructor default_options)))
       = []"
  by (simp add: example_simps one_file_env_def string_key_in_props_def second_props_key_def
        spec_sub_object_fields_def spec_static_key_def)

text \<open>
  Claim C1, amended. For every name of the style table: a property with that name as its
  identifier key, met by the check of the \<^verbatim>\<open>props\<close> sub-object, makes the check append
  exactly one warning, with the message
  \<^verbatim>\<open>Style property '<name>' should be in 'style' object, not 'props'\<close> and the suggestion
  \<^verbatim>\<open>Move '<name>' to the 'style' object\<close>; met by the check of the \<^verbatim>\<open>style\<close> sub-object it
  appends nothing, and that check gives the same with the property as without it. For any
  component, the warnings with this message that validation appends are as many as the
  properties with that identifier key in the \<^verbatim>\<open>props\<close> sub-object the validator locates
  (the value of the first direct property with the identifier key \<^verbatim>\<open>props\<close>, when it is
  an object literal), one for each; and validation never appends a warning
  \<^verbatim>\<open>HTML attribute '<name>' should be in 'props' object, not 'style'\<close> for such a name.
\<close>

theorem identifier_style_name_in_props_one_warning:
  assumes "name \<in> set getStyleProperties"
  shows "(prop_key prop = Some (Identifier name) \<longrightarrow>
            validatePropsObject_each f loc getStyleProperties getHTMLAttributes
                getEventHandlers prop s =
              s\<lparr>warnings := warnings s @
                [\<lparr> diag_file = f,
                   line = resolve_line prop loc,
                   column = resolve_column prop loc,
                   message = claimed_style_message name,
                   severity = Warning,
                   suggestion = Some (claimed_style_suggestion name) \<rparr>]\<rparr>
          \<and> validateStyleObject_each f loc getHTMLAttributes prop s = s
          \<and> validateStyleObject (ObjExp ol (pre @ prop # post)) f loc getHTMLAttributes s =
              validateStyleObject (ObjExp ol (pre @ post)) f loc getHTMLAttributes s)
       \<and> length (filter (\<lambda>d. message d = claimed_style_message name)
                   (warnings (validateComponentStructure node f loc s))) =
           length (filter (\<lambda>d. message d = claimed_style_message name) (warnings s)) +
           length (filter (\<lambda>p. prop_key p = Some (Identifier name))
                     (sub_object ''props'' node))
       \<and> filter (\<lambda>d. message d = claimed_attribute_message name)
            (warnings (validateComponentStructure node f loc s)) =
           filter (\<lambda>d. message d = claimed_attribute_message name) (warnings s)"
proof -
  have sty: "has getStyleProperties name"
    using assms by (simp add: has_def)
  have ev: "\<not> has getEventHandlers name"
    using assms by (rule style_name_not_event)
  have at: "\<not> has getHTMLAttributes name"
    using assms by (rule style_name_not_attribute)
  have pre: "\<not> startsWith name ''data-''" "\<not> startsWith name ''aria-''"
    using style_name_not_prefixed [OF assms] by simp_all
  have each: "validatePropsObject_each f loc getStyleProperties getHTMLAttributes
                getEventHandlers prop s =
              s\<lparr>warnings := warnings s @
                [\<lparr> diag_file = f,
                   line = resolve_line prop loc,
                   column = resolve_column prop loc,
                   message = claimed_style_message name,
                   severity = Warning,
                   suggestion = Some (claimed_style_suggestion name) \<rparr>]\<rparr>
          \<and> validateStyleObject_each f loc getHTMLAttributes prop s = s
          \<and> validateStyleObject (ObjExp ol (pre @ prop # post)) f loc getHTMLAttributes s =
              validateStyleObject (ObjExp ol (pre @ post)) f loc getHTMLAttributes s"
    if k: "prop_key prop = Some (Identifier name)"
  proof -
    have p: "props_diags f loc getStyleProperties getEventHandlers prop =
               [style_in_props f prop loc name]"
      using sty ev k by (simp add: props_diags_def)
    have q: "style_diags f loc getHTMLAttributes prop = []"
      using at pre k by (simp add: style_diags_def)
    have r: "validateStyleObject_each f loc getHTMLAttributes prop u = u" for u
      by (simp add: validateStyleObject_each_eq q)
    have "validateStyleObject (ObjExp ol (pre @ prop # post)) f loc getHTMLAttributes s =
            validateStyleObject (ObjExp ol (pre @ post)) f loc getHTMLAttributes s"
      by (simp add: validateStyleObject_def r)
    moreover have "validatePropsObject_each f loc getStyleProperties getHTMLAttributes
                getEventHandlers prop s =
              s\<lparr>warnings := warnings s @ [style_in_props f prop loc name]\<rparr>"
      by (simp add: validatePropsObject_each_eq p add_warnings_def)
    ultimately show ?thesis
      using r
      by (simp add: style_in_props_def claimed_style_message_def claimed_style_suggestion_def
            quoted_def)
  qed
  have cnt: "length (filter (\<lambda>d. message d = claimed_style_message name)
                   (component_diags f loc node)) =
             length (filter (\<lambda>p. prop_key p = Some (Identifier name))
                     (sub_object ''props'' node))"
    by (simp add: component_diags_def style_message_count_props [OF assms]
          no_style_message_elsewhere)
  show ?thesis
    using each
    by (simp add: warnings_validateComponentStructure cnt
          no_attribute_message_for_style_name [OF assms])
qed

theorem identifier_style_name_in_props_one_warning_witness:
  "validatePropsObject_each ''a.js'' (at 1 17) getStyleProperties getHTMLAttributes
       getEventHandlers
       (ObjectProperty (at 2 11) (Identifier ''width'') False (StringLiteral ''100px''))
       (constructor default_options) =
     (constructor default_options)\<lparr>warnings :=
        [\<lparr> diag_file = ''a.js'', line = 2, column = 11,
           message = ''Style property 'width' should be in 'style' object, not 'props'' @
                     [CHR 0x27],
           severity = Warning,
           suggestion = Some ''Move 'width' to the 'style' object'' \<rparr>]\<rparr>
   \<and> length (filter (\<lambda>d. message d =
                 ''Style property 'width' should be in 'style' object, not 'props'' @
                 [CHR 0x27])
        (warnings (validateComponentStructure example_component ''a.js'' (at 1 17)
                     (constructor default_options)))) = 1"
proof -
  have h: "''width'' \<in> set getStyleProperties"
    by (simp add: getStyleProperties_def)
  have k: "prop_key (ObjectProperty (at 2 11) (Identifier ''width'') False
             (StringLiteral ''100px'')) = Some (Identifier ''width'')"
    by simp
  have m: "claimed_style_message ''width'' =
             ''Style property 'width' should be in 'style' object, not 'props'' @ [CHR 0x27]"
          "claimed_style_suggestion ''width'' = ''Move 'width' to the 'style' object''"
    by (simp_all add: claimed_style_message_def claimed_style_suggestion_def)
  have c: "length (filter (\<lambda>p. prop_key p = Some (Identifier ''width''))
             (sub_object ''props'' example_component)) = 1"
    by (simp add: sub_object_def example_component_def key_named_def object_value_def)
  have l: "resolve_line (ObjectProperty (at 2 11) (Identifier ''width'') False
             (StringLiteral ''100px'')) (at 1 17) = 2"
          "resolve_column (ObjectProperty (at 2 11) (Identifier ''width'') False
             (StringLiteral ''100px'')) (at 1 17) = 11"
    by (simp_all add: resolve_line_def resolve_column_def js_or_def start_line_def
          start_column_def at_def)
  note t = identifier_style_name_in_props_one_warning [OF h,
      of "ObjectProperty (at 2 11) (Identifier ''width'') False (StringLiteral ''100px'')"
         "''a.js''" "at 1 17" "constructor default_options" _ _ _ example_component]
  have a: "validatePropsObject_each ''a.js'' (at 1 17) getStyleProperties getHTMLAttributes
       getEventHandlers
       (ObjectProperty (at 2 11) (Identifier ''width'') False (StringLiteral ''100px''))
       (constructor default_options) =
     (constructor default_options)\<lparr>warnings :=
        [\<lparr> diag_file = ''a.js'', line = 2, column = 11,
           message = ''Style property 'width' should be in 'style' object, not 'props'' @
                     [CHR 0x27],
           severity = Warning,
           suggestion = Some ''Move 'width' to the 'style' object'' \<rparr>]\<rparr>"
    using t [THEN conjunct1, rule_format, OF k, THEN conjunct1]
    unfolding m l by simp
  have b: "length (filter (\<lambda>d. message d =
                 ''Style property 'width' should be in 'style' object, not 'props'' @
                 [CHR 0x27])
        (warnings (validateComponentStructure example_component ''a.js'' (at 1 17)
                     (constructor default_options)))) = 1"
    using t [THEN conjunct2, THEN conjunct1]
    unfolding m c by simp
  show ?thesis
    using a b by blast
qed

text \<open>
  Claim C3, as stated, fails on the code. The field \<^verbatim>\<open>'custom-event': fn\<close> in the \<^verbatim>\<open>on\<close>
  sub-object has a static name that neither starts with \<^verbatim>\<open>on\<close> nor is one of the five
  exceptions, and the run gives no warning: the check of the sub-object examines
  identifier keys only. The field \<^verbatim>\<open>id\<close> in an object literal that is the value of the
  second of two \<^verbatim>\<open>on\<close> keys gives no warning either: the validator takes the first
  property named \<^verbatim>\<open>on\<close>.
\<close>

theorem string_key_in_on_counterexample:
  "map spec_static_key (spec_sub_object_fields ''on'' string_key_in_on) =
       [Some ''custom-event'']
   \<and> \<not> startsWith ''custom-event'' ''on''
   \<and> \<not> array_includes [''mouseenter'', ''mouseleave'', ''click'', ''keydown'', ''keyup'']
          ''custom-event''
   \<and> isDOMQLComponent string_key_in_on
   \<and> warnings (snd (lint (one_file_env string_key_in_on) (constructor default_options))) = []
   \<and> map spec_static_key (spec_sub_object_fields ''on'' second_on_key) = [Some ''id'']
   \<and> \<not> startsWith ''id'' ''on''
   \<and> \<not> array_includes [''mouseenter'', ''mouseleave'', ''click'', ''keydown'', ''keyup'']
          ''id''
   \<and> isDOMQLComponent second_on_key
   \<and> warnings (snd (lint (one_file_env second_on_key) (constructor default_options))) = []"
  by (simp add: example_simps one_file_env_def string_key_in_on_def second_on_key_def
        spec_sub_object_fields_def spec_static_key_def)

text \<open>
  Claim C3, amended. A property with an identifier key \<open>name\<close>, met by the check of the
  \<^verbatim>\<open>on\<close> sub-object, makes the check append exactly one warning, with the message
  \<^verbatim>\<open>'<name>' doesn't look like an event handler and should probably be in 'props'\<close> and
  the suggestion \<^verbatim>\<open>Consider moving '<name>' to the 'props' object\<close>, if \<open>name\<close> does not
  start with \<^verbatim>\<open>on\<close> and is none of \<^verbatim>\<open>mouseenter\<close>, \<^verbatim>\<open>mouseleave\<close>, \<^verbatim>\<open>click\<close>,
  \<^verbatim>\<open>keydown\<close>, \<^verbatim>\<open>keyup\<close>; otherwise it appends nothing. For any component, the warnings
  with this message that validation appends are, in the first case, as many as the
  properties with that identifier key in the \<^verbatim>\<open>on\<close> sub-object the validator locates (the
  value of the first direct property with the identifier key \<^verbatim>\<open>on\<close>, when it is an object
  literal), one for each, and none in the second case.
\<close>

theorem identifier_field_in_on_warned_iff_not_handler:
  "(prop_key prop = Some (Identifier name) \<longrightarrow>
      validateOnObject_each f loc prop s =
        (if \<not> startsWith name ''on''
            \<and> name \<notin> {''mouseenter'', ''mouseleave'', ''click'', ''keydown'', ''keyup''}
         then s\<lparr>warnings := warnings s @
           [\<lparr> diag_file = f,
              line = resolve_line prop loc,
              column = resolve_column prop loc,
              message = claimed_on_message name,
              severity = Warning,
              suggestion = Some (claimed_on_suggestion name) \<rparr>]\<rparr>
         else s))
   \<and> length (filter (\<lambda>d. message d = claimed_on_message name)
               (warnings (validateComponentStructure node f loc s))) =
       length (filter (\<lambda>d. message d = claimed_on_message name) (warnings s)) +
       (if \<not> startsWith name ''on''
           \<and> name \<notin> {''mouseenter'', ''mouseleave'', ''click'', ''keydown'', ''keyup''}
        then length (filter (\<lambda>p. prop_key p = Some (Identifier name))
                       (sub_object ''on'' node))
        else 0)"
proof -
  have each: "validateOnObject_each f loc prop s =
        (if \<not> startsWith name ''on''
            \<and> name \<notin> {''mouseenter'', ''mouseleave'', ''click'', ''keydown'', ''keyup''}
         then s\<lparr>warnings := warnings s @
           [\<lparr> diag_file = f,
              line = resolve_line prop loc,
              column = resolve_column prop loc,
              message = claimed_on_message name,
              severity = Warning,
              suggestion = Some (claimed_on_suggestion name) \<rparr>]\<rparr>
         else s)"
    if "prop_key prop = Some (Identifier name)"
    using that
    by (simp add: validateOnObject_each_def array_includes_def push_warning_def
          not_handler_in_on_def claimed_on_message_def claimed_on_suggestion_def quoted_def)
  have cnt: "length (filter (\<lambda>d. message d = claimed_on_message name)
                   (component_diags f loc node)) =
       (if \<not> startsWith name ''on''
           \<and> name \<notin> {''mouseenter'', ''mouseleave'', ''click'', ''keydown'', ''keyup''}
        then length (filter (\<lambda>p. prop_key p = Some (Identifier name))
                       (sub_object ''on'' node))
        else 0)"
    unfolding component_diags_def filter_append length_append
      no_on_message_elsewhere on_message_count_on
    by simp
  show ?thesis
    using each by (simp add: warnings_validateComponentStructure cnt)
qed

theorem identifier_field_in_on_warned_iff_not_handler_witness:
  "validateOnObject_each ''a.js'' (at 1 17)
       (ObjectProperty (at 4 8) (Identifier ''id'') False (StringLiteral ''z''))
       (constructor default_options) =
     (constructor default_options)\<lparr>warnings :=
        [\<lparr> diag_file = ''a.js'', line = 4, column = 8,
           message = CHR 0x27 #
             ''id' doesn't look like an event handler and should probably be in 'props'' @
             [CHR 0x27],
           severity = Warning,
           suggestion = Some ''Consider moving 'id' to the 'props' object'' \<rparr>]\<rparr>
   \<and> validateOnObject_each ''a.js'' (at 1 17)
       (ObjectProperty (at 4 17) (Identifier ''click'') False (Identifier ''fn''))
       (constructor default_options) = constructor default_options
   \<and> length (filter (\<lambda>d. message d = CHR 0x27 #
             ''id' doesn't look like an event handler and should probably be in 'props'' @
             [CHR 0x27])
        (warnings (validateComponentStructure example_component ''a.js'' (at 1 17)
                     (constructor default_options)))) = 1"
proof -
  have k: "prop_key (ObjectProperty (at 4 8) (Identifier ''id'') False (StringLiteral ''z''))
             = Some (Identifier ''id'')"
          "prop_key (ObjectProperty (at 4 17) (Identifier ''click'') False (Identifier ''fn''))
             = Some (Identifier ''click'')"
    by simp_all
  have m: "claimed_on_message ''id'' = CHR 0x27 #
             ''id' doesn't look like an event handler and should probably be in 'props'' @
             [CHR 0x27]"
          "claimed_on_suggestion ''id'' = ''Consider moving 'id' to the 'props' object''"
    by (simp_all add: claimed_on_message_def claimed_on_suggestion_def)
  have c: "length (filter (\<lambda>p. prop_key p = Some (Identifier ''id''))
             (sub_object ''on'' example_component)) = 1"
    by (simp add: sub_object_def example_component_def key_named_def object_value_def)
  have l: "resolve_line (ObjectProperty (at 4 8) (Identifier ''id'') False
             (StringLiteral ''z'')) (at 1 17) = 4"
          "resolve_column (ObjectProperty (at 4 8) (Identifier ''id'') False
             (StringLiteral ''z'')) (at 1 17) = 8"
    by (simp_all add: resolve_line_def resolve_column_def js_or_def start_line_def
          start_column_def at_def)
  have n: "\<not> startsWith ''id'' ''on''" "startsWith ''click'' ''on'' = False"
    by (simp_all add: startsWith_def)
  note t = identifier_field_in_on_warned_iff_not_handler [of
      "ObjectProperty (at 4 8) (Identifier ''id'') False (StringLiteral ''z'')" "''id''"
      "''a.js''" "at 1 17" "constructor default_options" example_component]
  note u = identifier_field_in_on_warned_iff_not_handler [of
      "ObjectProperty (at 4 17) (Identifier ''click'') False (Identifier ''fn'')" "''click''"
      "''a.js''" "at 1 17" "constructor default_options" example_component]
  have a: "validateOnObject_each ''a.js'' (at 1 17)
       (ObjectProperty (at 4 8) (Identifier ''id'') False (StringLiteral ''z''))
       (constructor default_options) =
     (constructor default_options)\<lparr>warnings :=
        [\<lparr> diag_file = ''a.js'', line = 4, column = 8,
           message = CHR 0x27 #
             ''id' doesn't look like an event handler and should probably be in 'props'' @
             [CHR 0x27],
           severity = Warning,
           suggestion = Some ''Consider moving 'id' to the 'props' object'' \<rparr>]\<rparr>"
    using t [THEN conjunct1, rule_format, OF k(1)] n
    unfolding m l by simp
  have b: "validateOnObject_each ''a.js'' (at 1 17)
       (ObjectProperty (at 4 17) (Identifier ''click'') False (Identifier ''fn''))
       (constructor default_options) = constructor default_options"
    using u [THEN conjunct1, rule_format, OF k(2)] by simp
  have d: "length (filter (\<lambda>d. message d = CHR 0x27 #
             ''id' doesn't look like an event handler and should probably be in 'props'' @
             [CHR 0x27])
        (warnings (validateComponentStructure example_component ''a.js'' (at 1 17)
                     (constructor default_options)))) = 1"
    using t [THEN conjunct2] n
    unfolding m c by simp
  show ?thesis
    using a b d by blast
qed

text \<open>
  Claim C8. Both collections only grow at the end, and in discovery order. A run leaves
  what the linter held in front and appends, file after file in the order of the file
  list, what each file produces on its own. A file that is read and parsed appends to the
  warnings, object literal after object literal in traversal order, what each literal
  the visitor has run on produces on its own: all the literals of the tree when the
  traversal completes, the first \<open>k\<close> of them when it throws after \<open>k\<close>; to the errors it
  appends nothing in the first case and the one diagnostic of the exception in the
  second. Traversal order is: a literal, then the literals nested in its properties,
  property after property, the key of a property before its value; the children of any
  other node one after the other. A component leaves the errors as they are and appends
  first what the properties of its \<^verbatim>\<open>props\<close> sub-object produce, then those of \<^verbatim>\<open>style\<close>,
  then those of \<^verbatim>\<open>on\<close>, each sub-object in declaration order.
\<close>

theorem diagnostics_appended_in_discovery_order:
  "errors (snd (lint e s)) =
     errors s @
     concat (map (\<lambda>f. errors (lintFile e f (s\<lparr>errors := [], warnings := []\<rparr>)))
                 (glob e (files s) (ignore s)))
   \<and> warnings (snd (lint e s)) =
     warnings s @
     concat (map (\<lambda>f. warnings (lintFile e f (s\<lparr>errors := [], warnings := []\<rparr>)))
                 (glob e (files s) (ignore s)))
   \<and> (readFileSync e f = Inr content \<and> parse e content = Inr ast \<longrightarrow>
        warnings (lintFile e f s) =
          warnings s @
          concat (map (\<lambda>node. warnings (checkObjectExpression node f
                                 (s\<lparr>errors := [], warnings := []\<rparr>)))
                      (case traverse_throws e ast of
                         None \<Rightarrow> object_expressions ast
                       | Some (k, msg) \<Rightarrow> take k (object_expressions ast)))
      \<and> errors (lintFile e f s) =
          errors s @
          (case traverse_throws e ast of
             None \<Rightarrow> []
           | Some (k, msg) \<Rightarrow>
               [\<lparr> diag_file = f, line = 1, column = 1,
                  message = ''Parse error: '' @ msg,
                  severity = Error, suggestion = None \<rparr>]))
   \<and> object_expressions (ObjectExpression node) =
       node # concat (map object_expressions_prop (properties node))
   \<and> object_expressions_prop (ObjectProperty l key c v) =
       object_expressions key @ object_expressions v
   \<and> object_expressions (OtherNode t ns) = concat (map object_expressions ns)
   \<and> errors (validateComponentStructure node f location s) = errors s
   \<and> warnings (validateComponentStructure node f location s) =
       warnings s @
       concat (map (\<lambda>p. warnings (validatePropsObject_each f location getStyleProperties
                            getHTMLAttributes getEventHandlers p
                            (s\<lparr>errors := [], warnings := []\<rparr>)))
                   (sub_object ''props'' node)) @
       concat (map (\<lambda>p. warnings (validateStyleObject_each f location getHTMLAttributes p
                            (s\<lparr>errors := [], warnings := []\<rparr>)))
                   (sub_object ''style'' node)) @
       concat (map (\<lambda>p. warnings (validateOnObject_each f location p
                            (s\<lparr>errors := [], warnings := []\<rparr>)))
                   (sub_object ''on'' node))"
proof -
  have run: "errors (snd (lint e s)) =
       errors s @ concat (map (file_errors e) (glob e (files s) (ignore s)))"
     "warnings (snd (lint e s)) =
       warnings s @ concat (map (file_warnings e) (glob e (files s) (ignore s)))"
    by (simp_all add: lint_eq)
  have one: "warnings (lintFile e f s) =
          warnings s @
          concat (map (\<lambda>node. if isDOMQLComponent node
                               then component_diags f (objexp_loc node) node else [])
                      (case traverse_throws e ast of
                         None \<Rightarrow> object_expressions ast
                       | Some (k, msg) \<Rightarrow> take k (object_expressions ast)))
      \<and> errors (lintFile e f s) =
          errors s @
          (case traverse_throws e ast of
             None \<Rightarrow> []
           | Some (k, msg) \<Rightarrow>
               [\<lparr> diag_file = f, line = 1, column = 1,
                  message = ''Parse error: '' @ msg,
                  severity = Error, suggestion = None \<rparr>])"
    if "readFileSync e f = Inr content" "parse e content = Inr ast"
  proof -
    have "load e f = Inr ast"
      using that by (simp add: load_def)
    then show ?thesis
      by (simp add: lintFile_eq file_errors_def file_warnings_def concat_map_if_filter
            visited_def traverse_errors_def parse_error_def split: option.splits)
  qed
  have order: "object_expressions (ObjectExpression node) =
       node # concat (map object_expressions_prop (properties node))"
    by (cases node) simp
  have comp: "errors (validateComponentStructure node f location s) = errors s"
    "warnings (validateComponentStructure node f location s) =
       warnings s @ component_diags f location node"
    by (simp_all add: validateComponentStructure_eq)
  show ?thesis
    using run one comp order
    by (simp add: lintFile_fresh checkObjectExpression_fresh each_fresh component_diags_def)
qed

theorem diagnostics_appended_in_discovery_order_witness:
  "map (\<lambda>d. (line d, column d, message d))
     (warnings (lintFile (one_file_env nested_component) ''a.js''
                  (constructor default_options))) =
     [(2, 11, ''Style property 'width' should be in 'style' object, not 'props'' @
              [CHR 0x27]),
      (3, 11, ''HTML attribute 'title' should be in 'props' object, not 'style'' @
              [CHR 0x27]),
      (2, 43, ''HTML attribute 'id' should be in 'props' object, not 'style'' @
              [CHR 0x27]),
      (4, 17, CHR 0x27 #
              ''id' doesn't look like an event handler and should probably be in 'props'' @
              [CHR 0x27])]
   \<and> errors (lintFile (one_file_env nested_component) ''a.js''
               (constructor default_options)) = []
   \<and> map (\<lambda>d. (line d, column d))
     (warnings (lintFile (throwing_env nested_component) ''a.js''
                  (constructor default_options))) = [(2, 11), (3, 11)]
   \<and> errors (lintFile (throwing_env nested_component) ''a.js''
               (constructor default_options)) =
       [\<lparr> diag_file = ''a.js'', line = 1, column = 1,
          message = ''Parse error: Duplicate declaration'',
          severity = Error, suggestion = None \<rparr>]"
proof -
  have h: "readFileSync (one_file_env nested_component) ''a.js'' = Inr ''source of a.js'' \<and>
           parse (one_file_env nested_component) ''source of a.js'' =
             Inr (module_of (ObjectExpression nested_component))"
    by (simp add: one_file_env_def)
  have h': "readFileSync (throwing_env nested_component) ''a.js'' = Inr ''source of a.js'' \<and>
           parse (throwing_env nested_component) ''source of a.js'' =
             Inr (module_of (ObjectExpression nested_component))"
    by (simp add: throwing_env_def)
  have fresh: "(constructor default_options)\<lparr>errors := [], warnings := []\<rparr> =
                 constructor default_options"
    by (simp add: constructor_def)
  have n: "traverse_throws (one_file_env nested_component)
             (module_of (ObjectExpression nested_component)) = None"
    by (simp add: one_file_env_def)
  have n': "traverse_throws (throwing_env nested_component)
             (module_of (ObjectExpression nested_component)) =
             Some (2, ''Duplicate declaration'')"
    by (simp add: throwing_env_def)
  note t = diagnostics_appended_in_discovery_order [of "one_file_env nested_component"
        "constructor default_options" "''a.js''" "''source of a.js''"
        "module_of (ObjectExpression nested_component)",
        THEN conjunct2, THEN conjunct2, THEN conjunct1, rule_format, OF h]
  note t' = diagnostics_appended_in_discovery_order [of "throwing_env nested_component"
        "constructor default_options" "''a.js''" "''source of a.js''"
        "module_of (ObjectExpression nested_component)",
        THEN conjunct2, THEN conjunct2, THEN conjunct1, rule_format, OF h']
  have a: "warnings (lintFile (one_file_env nested_component) ''a.js''
                  (constructor default_options)) =
       concat (map (\<lambda>node. warnings (checkObjectExpression node ''a.js''
                              (constructor default_options)))
                   (object_expressions (module_of (ObjectExpression nested_component))))"
      "errors (lintFile (one_file_env nested_component) ''a.js''
               (constructor default_options)) = []"
    using t unfolding n fresh by simp_all
  have b: "warnings (lintFile (throwing_env nested_component) ''a.js''
                  (constructor default_options)) =
       concat (map (\<lambda>node. warnings (checkObjectExpression node ''a.js''
                              (constructor default_options)))
                   (take 2 (object_expressions (module_of (ObjectExpression nested_component)))))"
      "errors (lintFile (throwing_env nested_component) ''a.js''
               (constructor default_options)) =
       [\<lparr> diag_file = ''a.js'', line = 1, column = 1,
          message = ''Parse error: Duplicate declaration'',
          severity = Error, suggestion = None \<rparr>]"
    using t' unfolding n' fresh by simp_all
  have ev: "map (\<lambda>d. (line d, column d, message d))
       (concat (map (\<lambda>node. warnings (checkObjectExpression node ''a.js''
                              (constructor default_options)))
                   (object_expressions (module_of (ObjectExpression nested_component))))) =
     [(2, 11, ''Style property 'width' should be in 'style' object, not 'props'' @
              [CHR 0x27]),
      (3, 11, ''HTML attribute 'title' should be in 'props' object, not 'style'' @
              [CHR 0x27]),
      (2, 43, ''HTML attribute 'id' should be in 'props' object, not 'style'' @
              [CHR 0x27]),
      (4, 17, CHR 0x27 #
              ''id' doesn't look like an event handler and should probably be in 'props'' @
              [CHR 0x27])]"
    by (simp add: example_simps nested_component_def)
  have ev': "map (\<lambda>d. (line d, column d))
       (concat (map (\<lambda>node. warnings (checkObjectExpression node ''a.js''
                              (constructor default_options)))
                   (take 2 (object_expressions
                      (module_of (ObjectExpression nested_component)))))) =
     [(2, 11), (3, 11)]"
    by (simp add: example_simps nested_component_def)
  show ?thesis
    unfolding a b using ev ev' by simp
qed

end
